theory Spec2Isabelle
  imports Main "HOL-Library.Word"
begin

unbundle bit_operations_syntax

section \<open>BLE multi-advertising manager (stack/btm/btm_ble_multi_adv.cc)\<close>

type_synonym u8 = "8 word"
type_synonym u16 = "16 word"
type_synonym u32 = "32 word"

subsection \<open>Constants\<close>

definition EXT_ADV_DATA_LEN_MAX :: int where
  "EXT_ADV_DATA_LEN_MAX = 251"

definition PERIODIC_ADV_DATA_LEN_MAX :: int where
  "PERIODIC_ADV_DATA_LEN_MAX = 252"


definition INTERMEDIATE :: u8 where "INTERMEDIATE = 0x00"
definition FIRST :: u8 where "FIRST = 0x01"
definition LAST :: u8 where "LAST = 0x02"
definition COMPLETE :: u8 where "COMPLETE = 0x03"

subsection \<open>Fragmenter: DivideAndSendData / DivideAndSendDataRecursively\<close>

text \<open>
  One call of the \<open>sender\<close> callback: the instance id, the operation code, the
  length byte (the source narrows the \<open>int\<close> length to \<open>uint8_t\<close>) and the
  bytes the sender reads from \<open>data.data() + offset\<close>.
\<close>

record chunk =
  c_inst_id :: int
  c_operation :: u8
  c_length :: u8
  c_payload :: "u8 list"

text \<open>
  The sender is an opaque command sink that answers each chunk with a status. It is
  modelled by the stream of statuses it delivers: \<open>sender k\<close> is the status passed to
  the completion callback of the \<open>k\<close>-th chunk. The function returns the chunks handed
  to the sender, in order, and the status given to \<open>done_cb\<close>.
\<close>

function DivideAndSendDataRecursively ::
  "bool \<Rightarrow> int \<Rightarrow> bool \<Rightarrow> u8 list \<Rightarrow> int \<Rightarrow> (nat \<Rightarrow> u8) \<Rightarrow> nat \<Rightarrow> u8 \<Rightarrow> chunk list \<times> u8" where
  "DivideAndSendDataRecursively isFirst inst_id is_periodic_adv_data data offset sender k status =
     (let dataSize = int (length data) in
      if status \<noteq> 0 \<or> (\<not> isFirst \<and> offset = dataSize) then ([], status)
      else
        let adv_data_length_max =
              (if is_periodic_adv_data then PERIODIC_ADV_DATA_LEN_MAX else EXT_ADV_DATA_LEN_MAX);
            moreThanOnePacket = (dataSize - offset > adv_data_length_max);
            operation = (if isFirst then (if moreThanOnePacket then FIRST else COMPLETE)
                         else (if moreThanOnePacket then INTERMEDIATE else LAST));
            len = (if moreThanOnePacket then adv_data_length_max else dataSize - offset);
            newOffset = offset + len;
            c = \<lparr>c_inst_id = inst_id, c_operation = operation,
                 c_length = word_of_int len,
                 c_payload = take (unat (word_of_int len :: u8)) (drop (nat offset) data)\<rparr>;
            r = DivideAndSendDataRecursively False inst_id is_periodic_adv_data data
                  newOffset sender (Suc k) (sender k)
        in (c # fst r, snd r))"
  by pat_completeness auto
termination
  by (relation "measure (\<lambda>(isFirst, inst_id, per, data, offset, sender, k, status).
        (if isFirst then 1 else 0) +
        (if offset = int (length data) then 0 else 1 + nat (int (length data) - offset)))")
     (auto simp: PERIODIC_ADV_DATA_LEN_MAX_def EXT_ADV_DATA_LEN_MAX_def split: if_splits)

definition DivideAndSendData :: "int \<Rightarrow> u8 list \<Rightarrow> bool \<Rightarrow> (nat \<Rightarrow> u8) \<Rightarrow> chunk list \<times> u8" where
  "DivideAndSendData inst_id data is_periodic_adv_data sender =
     DivideAndSendDataRecursively True inst_id is_periodic_adv_data data 0 sender 0 0"

text \<open>The largest payload of one chunk, as a length.\<close>

definition chunk_max :: "bool \<Rightarrow> nat" where
  "chunk_max per = nat (if per then PERIODIC_ADV_DATA_LEN_MAX else EXT_ADV_DATA_LEN_MAX)"


subsection \<open>Constants of headers that are not part of the sources\<close>

text \<open>
  Modelled from the spec: the status \<open>SUCCESS = 0\<close> on the HCI status plane and the AD
  types Flags \<open>0x01\<close>, TX Power Level \<open>0x0A\<close> and Encrypted Data \<open>0x31\<close>, which the
  headers \<open>ble_advertiser.h\<close> and \<open>hcidefs.h\<close> declare. The other constants of the
  headers (status codes, address types, the sentinel BIG handle, the discoverability
  flags) are parameters: fields of the record \<open>env\<close> below.
\<close>

definition BTM_BLE_MULTI_ADV_SUCCESS :: u8 where "BTM_BLE_MULTI_ADV_SUCCESS = 0"
definition HCI_SUCCESS :: u8 where "HCI_SUCCESS = 0x00"
definition BTM_BLE_AD_TYPE_ED :: u8 where "BTM_BLE_AD_TYPE_ED = 0x31"

subsection \<open>Data model\<close>

type_synonym RawAddress = "u8 list"

definition kEmpty :: RawAddress where
  "kEmpty = replicate 6 0"

text \<open>
  A stored \<open>MultiAdvCb\<close>. The callbacks of clients are opaque: running one is an
  event of the trace. \<open>BoundRegisterCb c i\<close> is \<open>Bind(timeout_cb, inst_id)\<close> of
  \<open>StartAdvertisingSetFinish\<close>, and \<open>NullCb\<close> is a default-constructed (null) callback.
\<close>

datatype MultiAdvCb = NullCb | ClientCb nat | BoundRegisterCb nat u8

text \<open>
  An \<open>alarm_t\<close>: \<open>Alarm None\<close> is an alarm that is not scheduled, \<open>Alarm (Some (ms, cb))\<close>
  is scheduled to fire after \<open>ms\<close> milliseconds. The only closure ever scheduled on a
  \<open>timeout_timer\<close> is \<open>Enable(inst_id, false, timeout_cb, 0, 0, DoNothing)\<close>, so the
  closure is represented by its \<open>timeout_cb\<close>.
\<close>

datatype alarm = Alarm "(int \<times> MultiAdvCb) option"

record AdvertisingInstance =
  inst_id :: u8
  in_use :: bool
  advertising_event_properties :: u8
  adv_raddr_timer :: bool
  tx_power :: u8
  duration :: u16
  maxExtAdvEvents :: u8
  timeout_timer :: "alarm option"
  own_address_type :: u8
  own_address :: RawAddress
  timeout_cb :: MultiAdvCb
  address_update_required :: bool
  periodic_enabled :: bool
  advertising_interval :: u32
  skip_rpa_count :: u8
  skip_rpa :: bool
  randomizer :: "u8 list"
  advertise_data :: "u8 list"
  scan_response_data :: "u8 list"
  periodic_data :: "u8 list"
  advertise_data_enc :: "u8 list"
  scan_response_data_enc :: "u8 list"
  periodic_adv_data_enc :: "u8 list"
  enc_key_value :: "u8 list"
  enable_status :: bool
  enable_time :: int
  big_handle :: u8

text \<open>
  \<open>adv_raddr_timer\<close> is a periodic alarm that exists for the whole life of the
  instance; the field says whether it is scheduled. \<open>tx_power\<close> is an \<open>int8_t\<close>, kept
  as its byte. \<open>enable_time\<close> is a \<open>TimeTicks\<close>, a count of microseconds.
\<close>

definition is_connectable :: "u8 \<Rightarrow> bool" where
  "is_connectable props = (props AND 0x01 \<noteq> 0)"

definition IsEnabled :: "AdvertisingInstance \<Rightarrow> bool" where
  "IsEnabled p = enable_status p"

definition IsConnectable :: "AdvertisingInstance \<Rightarrow> bool" where
  "IsConnectable p = is_connectable (advertising_event_properties p)"

record IsoBIGInstance =
  b_big_handle :: u8
  b_in_use :: bool
  bis_handles :: "u16 list"
  adv_inst_id :: u8
  created_status :: bool
  create_big_cb :: "nat option"
  terminate_big_cb :: "nat option"

definition IsCreated :: "IsoBIGInstance \<Rightarrow> bool" where
  "IsCreated b = created_status b"

subsection \<open>The external interfaces: HCI commands, callbacks of clients, the trace\<close>

text \<open>
  The commands of \<open>BleAdvertiserHciInterface\<close> (and \<open>btsnd_hcic_ble_rand\<close>) that the
  manager issues, with the arguments it passes.
\<close>

datatype hci_cmd =
    HciSetParameters u8 u16 u32 u32 u8 u8 RawAddress RawAddress u8 u8 u8 u8 u8 u8
  | HciSetRandomAddress u8 RawAddress
  | HciSetAdvertisingData u8 u8 u8 u8 "u8 list"
  | HciSetScanResponseData u8 u8 u8 u8 "u8 list"
  | HciSetPeriodicAdvertisingParameters u8 u16 u16 u16
  | HciSetPeriodicAdvertisingData u8 u8 u8 "u8 list"
  | HciSetPeriodicAdvertisingEnable u8 u8
  | HciEnable bool u8 u16 u8
  | HciRemoveAdvertisingSet u8
  | HciTerminateBIG u8 u8
  | HciRand

text \<open>
  The parameters of the BIG that \<open>CreateBIGComplete\<close> only hands on to the callback.
\<close>

record big_info =
  big_sync_delay :: u32
  transport_latency_big :: u32
  phy :: u8
  nse :: u8
  bn :: u8
  pto :: u8
  irc :: u8
  max_pdu :: u16
  iso_int :: u16
  num_bis :: u8

text \<open>
  What the manager does to the outside, in order: a command handed to the HCI interface,
  a request to the address generator, a call of \<open>btm_acl_update_conn_addr\<close>, or a run
  of a callback of a client.
\<close>

datatype event =
    Hci hci_cmd
  | GenerateRpaRequest
  | AclUpdateConnAddr u16 RawAddress
  | RunMultiAdvCb MultiAdvCb u8
  | RunIdTxPowerStatusCb nat u8 u8 u8
  | RunGetAddressCallback nat u8 RawAddress
  | RunCreateBIGCb nat u8 u8 u8 big_info "u16 list"
  | RunTerminateBIGCb nat u8 u8 u8 u8

text \<open>
  A table access out of range, a run of a null callback and an integer division by zero
  are undefined behaviour in the source; the model stops there with an error.
\<close>

datatype error = OutOfBounds | NullCallback | DivisionByZero | SignedOverflow

text \<open>
  What the collaborators answer and what the configuration says. The \<open>n\<close>-th request
  handed to an external interface is answered with \<open>hci_status n\<close> (and, for
  \<open>SetParameters\<close>, the selected TX power \<open>hci_tx_power n\<close>; for \<open>LE Rand\<close> the
  bytes \<open>hci_rand n\<close>; for the address generator the address \<open>gen_rpa n\<close>);
  \<open>clock n\<close> is what \<open>TimeTicks::Now()\<close> returns at that point. The AEAD of BoringSSL is
  opaque: \<open>aead_ctx_new\<close> says whether a context could be created for a key, and
  \<open>aead_seal key nonce input ad\<close> gives the bytes written to the output and tag buffers.
\<close>

record env =
  hci_status :: "nat \<Rightarrow> u8"
  hci_tx_power :: "nat \<Rightarrow> u8"
  hci_rand :: "nat \<Rightarrow> u8 list"
  gen_rpa :: "nat \<Rightarrow> RawAddress"
  clock :: "nat \<Rightarrow> int"
  enc_adv_data_enabled :: bool
  local_privacy_enabled :: bool
  controller_address :: RawAddress
  supports_ble_iso_broadcaster :: bool
  supports_ble_periodic_advertising_adi :: bool
  pts_le_nonconn_adv_enabled :: bool
  pts_le_conn_nondisc_adv_enabled :: bool
  BLE_ADDR_DEFAULT :: u8
  BLE_ADDR_PUBLIC :: u8
  BLE_ADDR_RANDOM :: u8
  BLE_ADDR_RANDOM_ID :: u8
  BLE_ADDR_ANONYMOUS :: u8
  BTM_BLE_MULTI_ADV_FAILURE :: u8
  ADVERTISE_FAILED_TOO_MANY_ADVERTISERS :: u8
  INVALID_BIG_HANDLE :: u8
  HCI_ERR_CONN_CAUSE_LOCAL_HOST :: u8
  HCI_ERR_ADVERTISING_TIMEOUT :: u8
  HCI_ERR_LIMIT_REACHED :: u8
  BTM_BLE_MULTI_ADV_MAX :: u8
  BTM_BLE_NON_DISCOVERABLE :: u8
  BTM_LIMITED_DISCOVERABLE :: u8
  BTM_GENERAL_DISCOVERABLE :: u8
  gap_session_key :: "u8 list"
  gap_init_vector :: "u8 list"
  aead_ctx_new :: "u8 list \<Rightarrow> bool"
  aead_seal :: "u8 list \<Rightarrow> u8 list \<Rightarrow> u8 list \<Rightarrow> u8 list \<Rightarrow> u8 list \<times> u8 list"

text \<open>
  The manager: its members, the number of requests handed to external interfaces so
  far, and the trace of events.
\<close>

record mgr =
  adv_inst :: "AdvertisingInstance list"
  inst_count :: u8
  rpa_gen_offload_enabled :: bool
  iso_big_inst :: "IsoBIGInstance list"
  hci_seq :: nat
  trace :: "event list"

type_synonym res = "error + mgr"

definition bnd :: "res \<Rightarrow> (mgr \<Rightarrow> res) \<Rightarrow> res" where
  "bnd r f = (case r of Inl e \<Rightarrow> Inl e | Inr st \<Rightarrow> f st)"

definition emit :: "event \<Rightarrow> mgr \<Rightarrow> mgr" where
  "emit e st = st\<lparr>trace := trace st @ [e]\<rparr>"

definition upd_inst :: "nat \<Rightarrow> (AdvertisingInstance \<Rightarrow> AdvertisingInstance) \<Rightarrow> mgr \<Rightarrow> mgr" where
  "upd_inst i f st = st\<lparr>adv_inst := (adv_inst st)[i := f (adv_inst st ! i)]\<rparr>"

definition upd_big :: "nat \<Rightarrow> (IsoBIGInstance \<Rightarrow> IsoBIGInstance) \<Rightarrow> mgr \<Rightarrow> mgr" where
  "upd_big i f st = st\<lparr>iso_big_inst := (iso_big_inst st)[i := f (iso_big_inst st ! i)]\<rparr>"

text \<open>\<open>cb.Run(status)\<close> for a stored callback.\<close>

definition Run :: "MultiAdvCb \<Rightarrow> u8 \<Rightarrow> mgr \<Rightarrow> res" where
  "Run cb status st =
     (if cb = NullCb then Inl NullCallback else Inr (emit (RunMultiAdvCb cb status) st))"

text \<open>
  A command handed to the HCI interface with a completion callback: the command is
  recorded and the callback runs with the status the controller answers.
\<close>

definition hci :: "env \<Rightarrow> hci_cmd \<Rightarrow> (u8 \<Rightarrow> mgr \<Rightarrow> res) \<Rightarrow> mgr \<Rightarrow> res" where
  "hci E c cb st =
     cb (hci_status E (hci_seq st)) ((emit (Hci c) st)\<lparr>hci_seq := Suc (hci_seq st)\<rparr>)"

text \<open>A command whose completion callback is \<open>base::DoNothing()\<close>.\<close>

definition hci0 :: "hci_cmd \<Rightarrow> mgr \<Rightarrow> mgr" where
  "hci0 c st = (emit (Hci c) st)\<lparr>hci_seq := Suc (hci_seq st)\<rparr>"

subsection \<open>RecomputeTimeout\<close>

text \<open>
  C++ integer division truncates towards zero; the conversion of an \<open>int64_t\<close> to
  \<open>int\<close> keeps the low 32 bits. \<open>TimeDelta::InMilliseconds\<close> divides the count of
  microseconds by 1000.
\<close>

definition tdiv :: "int \<Rightarrow> int \<Rightarrow> int" where
  "tdiv a b = sgn a * sgn b * (\<bar>a\<bar> div \<bar>b\<bar>)"

definition to_int :: "int \<Rightarrow> int" where
  "to_int x = sint (word_of_int x :: 32 word)"

definition InMilliseconds :: "int \<Rightarrow> int" where
  "InMilliseconds delta = tdiv delta 1000"

text \<open>
  The result is the instance as \<open>RecomputeTimeout\<close> leaves it and the statuses with
  which it ran \<open>timeout_cb\<close>, in order. \<open>durationDone + 1\<close> and \<open>eventsDone + 1\<close> are
  additions of \<open>int\<close>: at \<open>INT_MAX\<close> they overflow, which is an error here.
\<close>

definition RecomputeTimeout ::
  "AdvertisingInstance \<Rightarrow> int \<Rightarrow> error + AdvertisingInstance \<times> u8 list" where
  "RecomputeTimeout inst now =
     (let delta = now - enable_time inst;
          r1 =
            (if duration inst \<noteq> 0 then
               (let durationDone = to_int (tdiv (InMilliseconds delta) 10) in
                if durationDone = 2 ^ 31 - 1 then Inl SignedOverflow
                else if durationDone + 1 \<ge> uint (duration inst) then
                  (if timeout_cb inst = NullCb then Inl NullCallback
                   else Inr (inst\<lparr>enable_status := False\<rparr>, [0], True))
                else
                  Inr (inst\<lparr>duration := word_of_int (uint (duration inst) - durationDone)\<rparr>,
                       [], False))
             else Inr (inst, [], False))
      in case r1 of
           Inl e \<Rightarrow> Inl e
         | Inr (inst1, fired, cb_fired) \<Rightarrow>
             if maxExtAdvEvents inst1 \<noteq> 0 \<and> \<not> cb_fired then
               (let divisor = advertising_interval inst1 * 5 div 8 in
                if divisor = 0 then Inl DivisionByZero
                else
                  let eventsDone = to_int (tdiv (InMilliseconds delta) (uint divisor)) in
                  if eventsDone = 2 ^ 31 - 1 then Inl SignedOverflow
                  else if eventsDone + 1 \<ge> uint (maxExtAdvEvents inst1) then
                    (if timeout_cb inst1 = NullCb then Inl NullCallback
                     else Inr (inst1\<lparr>enable_status := False\<rparr>, fired @ [0]))
                  else
                    Inr (inst1\<lparr>maxExtAdvEvents :=
                                 word_of_int (uint (maxExtAdvEvents inst1) - eventsDone)\<rparr>, fired))
             else Inr (inst1, fired))"

text \<open>
  The constructor. It leaves \<open>maxExtAdvEvents\<close>, \<open>advertising_interval\<close> and
  \<open>randomizer\<close> uninitialised; they are 0 here. The vectors are empty, the callback is
  null and \<open>enable_time\<close> is the zero \<open>TimeTicks\<close>.
\<close>

definition AdvertisingInstance_ctor :: "env \<Rightarrow> int \<Rightarrow> AdvertisingInstance" where
  "AdvertisingInstance_ctor E i =
     \<lparr>inst_id = word_of_int i, in_use = False, advertising_event_properties = 0,
      adv_raddr_timer = False, tx_power = 0, duration = 0, maxExtAdvEvents = 0,
      timeout_timer = None, own_address_type = 0, own_address = kEmpty, timeout_cb = NullCb,
      address_update_required = False, periodic_enabled = False, advertising_interval = 0,
      skip_rpa_count = 0, skip_rpa = False, randomizer = replicate 5 0, advertise_data = [],
      scan_response_data = [], periodic_data = [], advertise_data_enc = [],
      scan_response_data_enc = [], periodic_adv_data_enc = [], enc_key_value = [],
      enable_status = False, enable_time = 0, big_handle = (INVALID_BIG_HANDLE E)\<rparr>"

text \<open>
  \<open>RecomputeTimeout\<close> in the words of the specification: the elapsed milliseconds
  since \<open>enable_time\<close>, one unit of \<open>duration\<close> per 10 ms, one event per
  \<open>advertising_interval * 5 / 8\<close> ms; a budget with at most one unit left is exhausted.
\<close>

definition RecomputeTimeout_spec :: "AdvertisingInstance \<Rightarrow> int \<Rightarrow> AdvertisingInstance \<times> u8 list" where
  "RecomputeTimeout_spec inst now =
     (let elapsed_ms = (now - enable_time inst) div 1000;
          duration_left = uint (duration inst) - elapsed_ms div 10;
          events_left = uint (maxExtAdvEvents inst) -
                        elapsed_ms div uint (advertising_interval inst * 5 div 8)
      in if duration inst \<noteq> 0 \<and> duration_left \<le> 1 then (inst\<lparr>enable_status := False\<rparr>, [0])
         else
           let inst1 = (if duration inst \<noteq> 0 then inst\<lparr>duration := word_of_int duration_left\<rparr>
                        else inst)
           in if maxExtAdvEvents inst \<noteq> 0 \<and> events_left \<le> 1
              then (inst1\<lparr>enable_status := False\<rparr>, [0])
              else if maxExtAdvEvents inst \<noteq> 0
              then (inst1\<lparr>maxExtAdvEvents := word_of_int events_left\<rparr>, [])
              else (inst1, []))"

subsection \<open>Enable, EnableFinish, EnableWithTimerCb and ConfigureRpa\<close>

text \<open>
  The manager runs on one thread, and the source passes the rest of each operation as a
  callback: to the HCI interface with a command, or to another function of the manager.
  A function that takes a callback is therefore modelled in continuation-passing style:
  the callback is a function from the status and the state to the result, and a command
  handed to the HCI interface runs its callback with the status that the controller
  answers. This is the order of the source wherever the call that takes the callback is
  the last statement of its function, or the callback is run on the spot
  (\<open>EnableWithTimerCb\<close>); the two places where it is not are described at
  \<open>ConfigureRpa\<close> and \<open>SetPeriodicAdvertisingData\<close>. An \<open>AdvertisingInstance*\<close> is the
  index of the instance in \<open>adv_inst\<close>. The model is of a live manager: the weak
  pointers of the source are valid and \<open>IsInitialized\<close> holds.
\<close>

definition EnableWithTimerCb ::
  "u8 \<Rightarrow> (u8 \<Rightarrow> mgr \<Rightarrow> res) \<Rightarrow> int \<Rightarrow> MultiAdvCb \<Rightarrow> u8 \<Rightarrow> mgr \<Rightarrow> res" where
  "EnableWithTimerCb inst_id' enable_cb dur timeout_cb' status st =
     bnd (enable_cb status st) (\<lambda>st1.
       if \<not> unat inst_id' < length (adv_inst st1) then Inl OutOfBounds
       else Inr (upd_inst (unat inst_id')
              (\<lambda>p. p\<lparr>timeout_timer := Some (Alarm (Some (dur * 10, timeout_cb')))\<rparr>) st1))"

definition EnableFinish ::
  "env \<Rightarrow> nat \<Rightarrow> bool \<Rightarrow> (u8 \<Rightarrow> mgr \<Rightarrow> res) \<Rightarrow> u8 \<Rightarrow> mgr \<Rightarrow> res" where
  "EnableFinish E p_inst enable cb status st =
     (if \<not> p_inst < length (adv_inst st) then Inl OutOfBounds
      else
        let p = adv_inst st ! p_inst;
            timed = (enable \<and> duration p \<noteq> 0);
            myCb = (if timed
                    then EnableWithTimerCb (inst_id p) cb (uint (duration p)) (timeout_cb p)
                    else cb);
            st1 = (if timed then st
                   else upd_inst p_inst (\<lambda>p. p\<lparr>timeout_timer := None\<rparr>) st);
            st2 = (if enable
                   then upd_inst p_inst (\<lambda>p. p\<lparr>enable_time := clock E (hci_seq st1)\<rparr>) st1
                   else st1);
            st3 = upd_inst p_inst (\<lambda>p. p\<lparr>enable_status := enable\<rparr>) st2
        in hci E (HciEnable enable (inst_id p) (duration p) (maxExtAdvEvents p)) myCb st3)"

text \<open>
  \<open>ConfigureRpa\<close>. In the throttled branch the function returns and \<open>configuredCb\<close> is
  dropped. In the last branch the address generator is asked for an address; the
  continuation bound there (it sets the address and refreshes the encrypted payloads)
  runs when the generator answers. It issues \<open>SetRandomAddress\<close> and goes on before
  that command completes, so it is not a continuation in the sense above; the model
  records the request and ends there.
\<close>

definition ConfigureRpa :: "env \<Rightarrow> nat \<Rightarrow> (u8 \<Rightarrow> mgr \<Rightarrow> res) \<Rightarrow> mgr \<Rightarrow> res" where
  "ConfigureRpa E p_inst configuredCb st =
     (if \<not> p_inst < length (adv_inst st) then Inl OutOfBounds
      else
        let p = adv_inst st ! p_inst;
            restart = (IsEnabled p \<and> IsConnectable p)
        in if skip_rpa p \<and> skip_rpa_count p > 0
           then Inr (upd_inst p_inst (\<lambda>p. p\<lparr>skip_rpa_count := skip_rpa_count p - 1\<rparr>) st)
           else
             let st1 = (if skip_rpa p
                        then upd_inst p_inst (\<lambda>p. p\<lparr>skip_rpa_count := 15\<rparr>) st
                        else st)
             in if restart \<and> (duration p \<noteq> 0 \<or> maxExtAdvEvents p \<noteq> 0)
                then configuredCb 0x01
                       (upd_inst p_inst (\<lambda>p. p\<lparr>address_update_required := True\<rparr>) st1)
                else Inr ((emit GenerateRpaRequest st1)\<lparr>hci_seq := Suc (hci_seq st1)\<rparr>))"

definition Enable ::
  "env \<Rightarrow> u8 \<Rightarrow> bool \<Rightarrow> (u8 \<Rightarrow> mgr \<Rightarrow> res) \<Rightarrow> u16 \<Rightarrow> u8 \<Rightarrow> MultiAdvCb \<Rightarrow> mgr \<Rightarrow> res" where
  "Enable E inst_id' enable cb duration' maxExtAdvEvents' timeout_cb' st =
     (if inst_id' \<ge> inst_count st then Inr st
      else if \<not> unat inst_id' < length (adv_inst st) then Inl OutOfBounds
      else
        let p_inst = unat inst_id' in
        if \<not> in_use (adv_inst st ! p_inst) then cb (BTM_BLE_MULTI_ADV_FAILURE E) st
        else
          let st1 = (if enable \<and> (duration' \<noteq> 0 \<or> maxExtAdvEvents' \<noteq> 0)
                     then upd_inst p_inst (\<lambda>p. p\<lparr>timeout_cb := timeout_cb'\<rparr>) st
                     else st);
              st2 = upd_inst p_inst
                      (\<lambda>p. p\<lparr>duration := duration', maxExtAdvEvents := maxExtAdvEvents'\<rparr>) st1
          in if \<not> rpa_gen_offload_enabled st2 \<and> enable \<and>
                address_update_required (adv_inst st2 ! p_inst)
             then ConfigureRpa E p_inst (EnableFinish E p_inst enable cb)
                    (upd_inst p_inst (\<lambda>p. p\<lparr>address_update_required := False\<rparr>) st2)
             else EnableFinish E p_inst enable cb 0 st2)"

subsection \<open>GetOwnAddress, Unregister and the events of the controller\<close>

definition GetOwnAddress :: "u8 \<Rightarrow> (u8 \<Rightarrow> RawAddress \<Rightarrow> mgr \<Rightarrow> res) \<Rightarrow> mgr \<Rightarrow> res" where
  "GetOwnAddress inst_id' cb st =
     (if \<not> unat inst_id' < length (adv_inst st) then Inl OutOfBounds
      else cb (own_address_type (adv_inst st ! unat inst_id'))
              (own_address (adv_inst st ! unat inst_id')) st)"

definition Unregister :: "env \<Rightarrow> u8 \<Rightarrow> mgr \<Rightarrow> res" where
  "Unregister E inst_id' st =
     (if inst_id' \<ge> inst_count st then Inr st
      else if \<not> unat inst_id' < length (adv_inst st) then Inl OutOfBounds
      else
        let i = unat inst_id';
            bh = big_handle (adv_inst st ! i);
            r1 = (if supports_ble_iso_broadcaster E \<and> bh \<noteq> (INVALID_BIG_HANDLE E)
                  then if \<not> unat bh < length (iso_big_inst st) then Inl OutOfBounds
                       else Inr (upd_inst i (\<lambda>p. p\<lparr>big_handle := (INVALID_BIG_HANDLE E)\<rparr>)
                              (upd_big (unat bh)
                                 (\<lambda>b. b\<lparr>b_in_use := False, bis_handles := [],
                                        created_status := False,
                                        b_big_handle := (INVALID_BIG_HANDLE E)\<rparr>)
                                 (hci0 (HciTerminateBIG bh (HCI_ERR_CONN_CAUSE_LOCAL_HOST E)) st)))
                  else Inr st)
        in bnd r1 (\<lambda>s1.
             let s2 = (if IsEnabled (adv_inst s1 ! i)
                       then hci0 (HciEnable False inst_id' 0x00 0x00)
                              (upd_inst i (\<lambda>p. p\<lparr>enable_status := False, advertise_data := [],
                                 advertise_data_enc := [], scan_response_data := [],
                                 scan_response_data_enc := []\<rparr>) s1)
                       else s1);
                 s3 = (if periodic_enabled (adv_inst s2 ! i)
                       then hci0 (HciSetPeriodicAdvertisingEnable 0 inst_id')
                              (upd_inst i (\<lambda>p. p\<lparr>periodic_enabled := False, periodic_data := [],
                                 periodic_adv_data_enc := []\<rparr>) s2)
                       else s2);
                 s4 = hci0 (HciRemoveAdvertisingSet inst_id')
                        (upd_inst i (\<lambda>p. p\<lparr>timeout_timer := None, adv_raddr_timer := False,
                           in_use := False, skip_rpa_count := 0, skip_rpa := False\<rparr>) s3)
             in Inr (upd_inst i (\<lambda>p. p\<lparr>address_update_required := False\<rparr>) s4)))"

text \<open>
  \<open>RecomputeTimeout\<close> on an instance of the table: the instance is replaced and each
  run of \<open>timeout_cb\<close> is an event.
\<close>

definition RecomputeTimeout_at :: "nat \<Rightarrow> int \<Rightarrow> mgr \<Rightarrow> res" where
  "RecomputeTimeout_at i now st =
     (case RecomputeTimeout (adv_inst st ! i) now of
        Inl e \<Rightarrow> Inl e
      | Inr (p', fired) \<Rightarrow>
          Inr ((upd_inst i (\<lambda>_. p') st)
                 \<lparr>trace := trace st @ map (RunMultiAdvCb (timeout_cb (adv_inst st ! i))) fired\<rparr>))"

definition OnAdvertisingSetTerminated :: "env \<Rightarrow> u8 \<Rightarrow> u8 \<Rightarrow> u16 \<Rightarrow> u8 \<Rightarrow> mgr \<Rightarrow> res" where
  "OnAdvertisingSetTerminated E status advertising_handle connection_handle
     num_completed_extended_adv_events st =
     (if \<not> unat advertising_handle < length (adv_inst st) then Inl OutOfBounds
      else
        let i = unat advertising_handle in
        if status = (HCI_ERR_LIMIT_REACHED E) \<or> status = (HCI_ERR_ADVERTISING_TIMEOUT E) then
          (let st1 = upd_inst i (\<lambda>p. p\<lparr>enable_status := False\<rparr>) st in
           if timeout_cb (adv_inst st1 ! i) = NullCb then Inr st1
           else Run (timeout_cb (adv_inst st1 ! i)) status st1)
        else
          let st1 = (if \<not> rpa_gen_offload_enabled st \<and> local_privacy_enabled E \<and>
                        advertising_handle \<le> (BTM_BLE_MULTI_ADV_MAX E)
                     then emit (AclUpdateConnAddr connection_handle (own_address (adv_inst st ! i))) st
                     else st)
          in if in_use (adv_inst st1 ! i) then
               (if advertising_event_properties (adv_inst st1 ! i) AND 0x0C = 0 then
                  bnd (RecomputeTimeout_at i (clock E (hci_seq st1)) st1) (\<lambda>st2.
                    if enable_status (adv_inst st2 ! i)
                    then Inr (hci0 (HciEnable True advertising_handle (duration (adv_inst st2 ! i))
                                      (maxExtAdvEvents (adv_inst st2 ! i))) st2)
                    else Inr st2)
                else Inr (upd_inst i (\<lambda>p. p\<lparr>in_use := False\<rparr>) st1))
             else Inr st1)"

definition CreateBIGComplete ::
  "env \<Rightarrow> u8 \<Rightarrow> u8 \<Rightarrow> big_info \<Rightarrow> u16 list \<Rightarrow> mgr \<Rightarrow> res" where
  "CreateBIGComplete E status big_handle' info conn_handle_list st =
     (if big_handle' \<ge> inst_count st then Inr st
      else if \<not> unat big_handle' < length (iso_big_inst st) then Inl OutOfBounds
      else
        let b = unat big_handle';
            r1 = (if status = HCI_SUCCESS
                  then Inr (upd_big b (\<lambda>g. g\<lparr>bis_handles := conn_handle_list,
                                              created_status := True\<rparr>) st)
                  else
                    let s1 = upd_big b (\<lambda>g. g\<lparr>b_in_use := False,
                                               b_big_handle := (INVALID_BIG_HANDLE E)\<rparr>) st;
                        a = unat (adv_inst_id (iso_big_inst s1 ! b))
                    in if \<not> a < length (adv_inst s1) then Inl OutOfBounds
                       else Inr (upd_inst a (\<lambda>p. p\<lparr>big_handle := (INVALID_BIG_HANDLE E)\<rparr>) s1))
        in bnd r1 (\<lambda>s2.
             case create_big_cb (iso_big_inst s2 ! b) of
               None \<Rightarrow> Inr s2
             | Some c \<Rightarrow> Inr (emit (RunCreateBIGCb c (adv_inst_id (iso_big_inst s2 ! b)) status
                                      big_handle' info conn_handle_list) s2)))"

definition TerminateBIGComplete ::
  "env \<Rightarrow> u8 \<Rightarrow> u8 \<Rightarrow> bool \<Rightarrow> u8 \<Rightarrow> mgr \<Rightarrow> res" where
  "TerminateBIGComplete E status big_handle' cmd_status reason st =
     (if big_handle' \<ge> inst_count st then Inr st
      else if \<not> unat big_handle' < length (iso_big_inst st) then Inl OutOfBounds
      else
        let b = unat big_handle';
            r1 = (if \<not> cmd_status
                  then
                    let s1 = upd_big b (\<lambda>g. g\<lparr>b_in_use := False, bis_handles := [],
                                               created_status := False,
                                               b_big_handle := (INVALID_BIG_HANDLE E)\<rparr>) st;
                        a = unat (adv_inst_id (iso_big_inst s1 ! b))
                    in if \<not> a < length (adv_inst s1) then Inl OutOfBounds
                       else Inr (upd_inst a (\<lambda>p. p\<lparr>big_handle := (INVALID_BIG_HANDLE E)\<rparr>) s1)
                  else Inr st)
        in bnd r1 (\<lambda>s2.
             case terminate_big_cb (iso_big_inst s2 ! b) of
               None \<Rightarrow> Inr s2
             | Some c \<Rightarrow> Inr (emit (RunTerminateBIGCb c status (adv_inst_id (iso_big_inst s2 ! b))
                                      big_handle' reason) s2)))"

subsection \<open>Encrypted advertising data\<close>

text \<open>A fixed-size array or buffer of \<open>n\<close> bytes holding \<open>xs\<close>, zero-filled.\<close>

definition octets :: "nat \<Rightarrow> u8 list \<Rightarrow> u8 list" where
  "octets n xs = take n (xs @ replicate n 0)"

text \<open>
  Modelled from the spec: \<open>EVP_AEAD_max_overhead(EVP_aead_aes_128_ccm_bluetooth())\<close>, a
  constant of BoringSSL, is the length of the tag; the specification says AES-128-CCM
  with a 4-byte MAC.
\<close>

definition EVP_AEAD_max_overhead :: nat where
  "EVP_AEAD_max_overhead = 4"

text \<open>
  \<open>EncryptedAdvertising\<close>. The key material of the GAP layer is a pair of arrays of
  16 and 8 bytes. With a user key the loop reads \<open>enc_key_value[0..23]\<close>, whatever the
  length of the vector. A null AEAD context gives the empty vector. The result of the
  seal operation is ignored by the source: the output and tag buffers are used as they are.
\<close>

definition EncryptedAdvertising :: "env \<Rightarrow> AdvertisingInstance \<Rightarrow> u8 list \<Rightarrow> error + u8 list" where
  "EncryptedAdvertising E p data =
     (if enc_key_value p \<noteq> [] \<and> length (enc_key_value p) < 24 then Inl OutOfBounds
      else
        let key = (if enc_key_value p = []
                   then map (\<lambda>i. octets 16 (gap_session_key E) ! i) [0..<16]
                   else map (\<lambda>i. enc_key_value p ! i) [0..<16]);
            iv = (if enc_key_value p = []
                  then map (\<lambda>i. octets 8 (gap_init_vector E) ! i) [0..<8]
                  else map (\<lambda>i. enc_key_value p ! i) [16..<24]);
            nonce = rev (randomizer p) @ rev iv;
            ad = [0xEA]
        in if \<not> aead_ctx_new E key then Inr []
           else
             let sealed = aead_seal E key nonce data ad;
                 out = octets (length data) (fst sealed);
                 out_tag = octets EVP_AEAD_max_overhead (snd sealed);
                 ED_AD_Data = rev (randomizer p) @ out @ out_tag;
                 ED_AD_Data1 = BTM_BLE_AD_TYPE_ED # ED_AD_Data
             in Inr (word_of_nat (length ED_AD_Data1) # ED_AD_Data1))"


subsection \<open>SetData and the periodic advertising commands\<close>






record tBLE_PERIODIC_ADV_PARAMS =
  pp_enable :: u8
  pp_min_interval :: u16
  pp_max_interval :: u16
  pp_periodic_advertising_properties :: u16





subsection \<open>SetParameters and RegisterAdvertiserImpl\<close>

record tBTM_BLE_ADV_PARAMS =
  prm_advertising_event_properties :: u16
  prm_adv_int_min :: u32
  prm_adv_int_max :: u32
  prm_channel_map :: u8
  prm_adv_filter_policy :: u8
  prm_tx_power :: u8
  prm_primary_advertising_phy :: u8
  prm_secondary_advertising_phy :: u8
  prm_scan_request_notification_enable :: u8
  prm_own_address_type :: u8




subsection \<open>StartAdvertisingSet\<close>

text \<open>
  The bundle that is moved through the chain. \<open>cp_cb\<close> is the callback of the caller,
  \<open>cp_timeout_cb\<close> names the \<open>RegisterCb\<close> of the caller.
\<close>

record CreatorParams =
  cp_inst_id :: u8
  cp_cb :: "u8 \<Rightarrow> u8 \<Rightarrow> u8 \<Rightarrow> mgr \<Rightarrow> res"
  cp_params :: tBTM_BLE_ADV_PARAMS
  cp_advertise_data :: "u8 list"
  cp_advertise_data_enc :: "u8 list"
  cp_scan_response_data :: "u8 list"
  cp_scan_response_data_enc :: "u8 list"
  cp_periodic_params :: tBLE_PERIODIC_ADV_PARAMS
  cp_periodic_data :: "u8 list"
  cp_periodic_adv_data_enc :: "u8 list"
  cp_enc_key_value :: "u8 list"
  cp_duration :: u16
  cp_maxExtAdvEvents :: u8
  cp_timeout_cb :: nat

text \<open>
  Each completion callback of the chain is a definition of its own, named after the
  step it completes; the functions of the source keep their names.
\<close>

definition on_Enable :: "env \<Rightarrow> CreatorParams \<Rightarrow> u8 \<Rightarrow> mgr \<Rightarrow> res" where
  "on_Enable E c status st =
     (if status \<noteq> 0
      then bnd (Unregister E (cp_inst_id c) st) (cp_cb c 0 0 status)
      else if \<not> unat (cp_inst_id c) < length (adv_inst st) then Inl OutOfBounds
      else cp_cb c (cp_inst_id c) (tx_power (adv_inst st ! unat (cp_inst_id c))) status st)"













subsection \<open>Concrete collaborators and a concrete manager\<close>

text \<open>
  A controller that accepts every command, a cipher that copies its input, and the
  manager as \<open>ReadInstanceCountCb(2)\<close> leaves it: two free instances and two free BIG
  slots.
\<close>

definition test_env :: env where
  "test_env =
     \<lparr>hci_status = (\<lambda>_. 0), hci_tx_power = (\<lambda>_. 7), hci_rand = (\<lambda>_. [1, 2, 3, 4, 5, 6, 7, 8]),
      gen_rpa = (\<lambda>_. [0x40, 1, 2, 3, 4, 5]), clock = (\<lambda>_. 0),
      enc_adv_data_enabled = False, local_privacy_enabled = False,
      controller_address = [1, 2, 3, 4, 5, 6], supports_ble_iso_broadcaster = False,
      supports_ble_periodic_advertising_adi = False, pts_le_nonconn_adv_enabled = False,
      pts_le_conn_nondisc_adv_enabled = False,
      BLE_ADDR_DEFAULT = 0xFE, BLE_ADDR_PUBLIC = 0x00, BLE_ADDR_RANDOM = 0x01,
      BLE_ADDR_RANDOM_ID = 0x03, BLE_ADDR_ANONYMOUS = 0xFF, BTM_BLE_MULTI_ADV_FAILURE = 1,
      ADVERTISE_FAILED_TOO_MANY_ADVERTISERS = 0x02, INVALID_BIG_HANDLE = 0xFF,
      HCI_ERR_CONN_CAUSE_LOCAL_HOST = 0x16, HCI_ERR_ADVERTISING_TIMEOUT = 0x3C,
      HCI_ERR_LIMIT_REACHED = 0x43, BTM_BLE_MULTI_ADV_MAX = 16,
      BTM_BLE_NON_DISCOVERABLE = 0x00, BTM_LIMITED_DISCOVERABLE = 0x01,
      BTM_GENERAL_DISCOVERABLE = 0x02, gap_session_key = replicate 16 0,
      gap_init_vector = replicate 8 0, aead_ctx_new = (\<lambda>_. True),
      aead_seal = (\<lambda>key nonce input ad. (input, [0, 0, 0, 0]))\<rparr>"

text \<open>The instance of the tests \<open>testRecomputeTimeout1..3\<close>, enabled at one second.\<close>

definition test_instance :: AdvertisingInstance where
  "test_instance = (AdvertisingInstance_ctor test_env 0)\<lparr>enable_status := True, enable_time := 1000000,
     timeout_cb := ClientCb 0\<rparr>"

definition IsoBIGInstance_ctor :: "int \<Rightarrow> IsoBIGInstance" where
  "IsoBIGInstance_ctor h =
     \<lparr>b_big_handle = word_of_int h, b_in_use = False, bis_handles = [], adv_inst_id = 0,
      created_status = False, create_big_cb = None, terminate_big_cb = None\<rparr>"

definition test_big_info :: big_info where
  "test_big_info =
     \<lparr>big_sync_delay = 0, transport_latency_big = 0, phy = 2, nse = 1, bn = 1, pto = 0, irc = 1,
      max_pdu = 100, iso_int = 8, num_bis = 1\<rparr>"

definition test_mgr :: mgr where
  "test_mgr =
     \<lparr>adv_inst = [AdvertisingInstance_ctor test_env 0, AdvertisingInstance_ctor test_env 1], inst_count = 2,
      rpa_gen_offload_enabled = False,
      iso_big_inst = [IsoBIGInstance_ctor 0, IsoBIGInstance_ctor 1], hci_seq = 0, trace = []\<rparr>"

text \<open>Callbacks of a client, as continuations: running one is an event.\<close>

definition client_cb :: "nat \<Rightarrow> u8 \<Rightarrow> mgr \<Rightarrow> res" where
  "client_cb n status st = Inr (emit (RunMultiAdvCb (ClientCb n) status) st)"

definition client_start_cb :: "nat \<Rightarrow> u8 \<Rightarrow> u8 \<Rightarrow> u8 \<Rightarrow> mgr \<Rightarrow> res" where
  "client_start_cb n inst tx status st = Inr (emit (RunIdTxPowerStatusCb n inst tx status) st)"

definition client_address_cb :: "nat \<Rightarrow> u8 \<Rightarrow> RawAddress \<Rightarrow> mgr \<Rightarrow> res" where
  "client_address_cb n t a st = Inr (emit (RunGetAddressCallback n t a) st)"

text \<open>
  An enabled, connectable instance with a duration; an instance of a broadcast set with
  a pending address update.
\<close>

definition capped_mgr :: mgr where
  "capped_mgr = upd_inst 0 (\<lambda>p. p\<lparr>in_use := True, enable_status := True,
     advertising_event_properties := 0x01, duration := 100\<rparr>) test_mgr"

definition throttled_mgr :: mgr where
  "throttled_mgr = upd_inst 0 (\<lambda>p. p\<lparr>in_use := True, address_update_required := True,
     skip_rpa := True, skip_rpa_count := 15\<rparr>) test_mgr"


text \<open>
  The instance of the EAD scenario of the specification: key \<open>00..0F\<close>, IV \<open>00..07\<close>,
  and the randomizer \<open>01 02 03 04 05\<close>, stored reversed.
\<close>

definition ead_instance :: AdvertisingInstance where
  "ead_instance = test_instance\<lparr>randomizer := [5, 4, 3, 2, 1],
     enc_key_value := [0, 1, 2, 3, 4, 5, 6, 7, 8, 9, 10, 11, 12, 13, 14, 15,
                       0, 1, 2, 3, 4, 5, 6, 7]\<rparr>"



text \<open>
  The commands that the start pipeline issues to bring a set up. The commands with
  which \<open>Unregister\<close> takes a set down (disable, stop the periodic train, terminate the
  BIG, remove the set) are not among them.
\<close>

fun pipeline_cmd :: "hci_cmd \<Rightarrow> bool" where
  "pipeline_cmd (HciEnable enable h d m) = enable"
| "pipeline_cmd (HciSetPeriodicAdvertisingEnable enable h) = (enable \<noteq> 0)"
| "pipeline_cmd (HciRemoveAdvertisingSet h) = False"
| "pipeline_cmd (HciTerminateBIG h r) = False"
| "pipeline_cmd c = True"









section \<open>Properties\<close>

subsection \<open>Fragmenter\<close>

declare DivideAndSendDataRecursively.simps [simp del]

lemma chunk_max_eq: "chunk_max per = (if per then 252 else 251)"
  by (simp add: chunk_max_def PERIODIC_ADV_DATA_LEN_MAX_def EXT_ADV_DATA_LEN_MAX_def)

lemma dsr_stop:
  "status \<noteq> 0 \<or> (\<not> isFirst \<and> offset = int (length data)) \<Longrightarrow>
   DivideAndSendDataRecursively isFirst i per data offset sender k status = ([], status)"
  by (subst DivideAndSendDataRecursively.simps) (simp add: Let_def)

lemma dsr_last:
  assumes "isFirst \<or> off \<noteq> length data" "off \<le> length data" "length data - off \<le> chunk_max per"
  shows "DivideAndSendDataRecursively isFirst i per data (int off) sender k 0 =
     ([\<lparr>c_inst_id = i, c_operation = (if isFirst then COMPLETE else LAST),
        c_length = of_nat (length data - off), c_payload = drop off data\<rparr>], sender k)"
proof -
  have u: "unat (word_of_int (int (length data) - int off) :: u8) = length data - off"
  proof -
    have "(word_of_int (int (length data) - int off) :: u8) = of_nat (length data - off)"
      using assms(2) by (simp add: of_nat_diff)
    moreover have "length data - off < 256" using assms(3) by (simp add: chunk_max_eq split: if_splits)
    ultimately show ?thesis by (simp add: unat_of_nat)
  qed
  have w: "(word_of_int (int (length data) - int off) :: u8) = of_nat (length data - off)"
    using assms(2) by (simp add: of_nat_diff)
  have r: "DivideAndSendDataRecursively False i per data (int (length data)) sender (Suc k) (sender k) = ([], sender k)"
    by (rule dsr_stop) simp
  have nm: "\<not> (int (length data) - int off > (if per then PERIODIC_ADV_DATA_LEN_MAX else EXT_ADV_DATA_LEN_MAX))"
    using assms(3) by (simp add: chunk_max_eq PERIODIC_ADV_DATA_LEN_MAX_def EXT_ADV_DATA_LEN_MAX_def split: if_splits)
  show ?thesis
    apply (subst DivideAndSendDataRecursively.simps)
    using assms(1,2) nm r u w
    apply (simp add: Let_def)
    done
qed

lemma dsr_more:
  assumes "length data - off > chunk_max per"
  shows "DivideAndSendDataRecursively isFirst i per data (int off) sender k 0 =
     (\<lparr>c_inst_id = i, c_operation = (if isFirst then FIRST else INTERMEDIATE),
        c_length = of_nat (chunk_max per), c_payload = take (chunk_max per) (drop off data)\<rparr> #
       fst (DivideAndSendDataRecursively False i per data (int (off + chunk_max per)) sender (Suc k) (sender k)),
      snd (DivideAndSendDataRecursively False i per data (int (off + chunk_max per)) sender (Suc k) (sender k)))"
proof -
  have m: "(if per then PERIODIC_ADV_DATA_LEN_MAX else EXT_ADV_DATA_LEN_MAX) = int (chunk_max per)"
    by (simp add: chunk_max_eq PERIODIC_ADV_DATA_LEN_MAX_def EXT_ADV_DATA_LEN_MAX_def)
  have u: "unat (word_of_int (int (chunk_max per)) :: u8) = chunk_max per"
    by (simp add: chunk_max_eq)
  have gt: "int (length data) - int off > int (chunk_max per)" using assms by linarith
  have ne: "int off \<noteq> int (length data)" using assms by linarith
  show ?thesis
    apply (subst DivideAndSendDataRecursively.simps)
    using gt ne u
    apply (simp add: Let_def m del: of_nat_add)
    apply (simp add: )
    done
qed


lemma div_add_m: "0 < (m::nat) \<Longrightarrow> (b + m) div m = Suc (b div m)"
  by (metis div_add_self2 Suc_eq_plus1 less_numeral_extra(3))

lemma chunk_max_pos: "0 < chunk_max per" by (simp add: chunk_max_eq)

lemma dsr_tail_zero:
  "off \<le> length data \<Longrightarrow>
   snd (DivideAndSendDataRecursively False i per data (int off) (\<lambda>_. 0) k 0) = 0 \<and>
   concat (map c_payload (fst (DivideAndSendDataRecursively False i per data (int off) (\<lambda>_. 0) k 0))) = drop off data \<and>
   length (fst (DivideAndSendDataRecursively False i per data (int off) (\<lambda>_. 0) k 0)) =
     (length data - off + chunk_max per - 1) div chunk_max per \<and>
   map c_operation (fst (DivideAndSendDataRecursively False i per data (int off) (\<lambda>_. 0) k 0)) =
     (if off = length data then []
      else replicate ((length data - off + chunk_max per - 1) div chunk_max per - 1) INTERMEDIATE @ [LAST])"
proof (induction "length data - off" arbitrary: off k rule: less_induct)
  case less
  let ?m = "chunk_max per"
  consider (fin) "off = length data" | (last) "off < length data" "length data - off \<le> ?m"
    | (more) "length data - off > ?m" using less.prems by linarith
  then show ?case
  proof cases
    case fin
    have "DivideAndSendDataRecursively False i per data (int off) (\<lambda>_. 0) k 0 = ([], 0)"
      by (rule dsr_stop) (simp add: fin)
    then show ?thesis using fin chunk_max_pos [of per] by simp
  next
    case last
    have d: "(length data - off + ?m - 1) div ?m = 1"
    proof -
      have "?m \<le> length data - off + ?m - 1" using last by simp
      moreover have "length data - off + ?m - 1 < 2 * ?m" using last chunk_max_pos [of per] by simp
      ultimately show ?thesis
        by (metis One_nat_def Suc_1 div_greater_zero_iff chunk_max_pos less_Suc_eq less_mult_imp_div_less mult.commute not_gr_zero)
    qed
    show ?thesis
      using last d by (simp add: dsr_last)
  next
    case more
    let ?r = "DivideAndSendDataRecursively False i per data (int (off + ?m)) (\<lambda>_. 0) (Suc k) 0"
    have le: "off + ?m \<le> length data" and lt: "length data - (off + ?m) < length data - off"
      using more chunk_max_pos [of per] by simp_all
    note IH = less.hyps [OF lt le, of "Suc k"]
    have d: "(length data - off + ?m - 1) div ?m = Suc ((length data - (off + ?m) + ?m - 1) div ?m)"
    proof -
      define B where "B = length data - (off + ?m) + ?m - 1"
      have e: "length data - off + ?m - 1 = B + ?m"
        unfolding B_def using more by simp
      have "(B + ?m) div ?m = Suc (B div ?m)"
        by (rule div_add_m [OF chunk_max_pos])
      then show ?thesis by (simp only: e B_def)
    qed
    have pos: "0 < (length data - (off + ?m) + ?m - 1) div ?m"
      using more chunk_max_pos [of per] by (simp add: div_greater_zero_iff)
    have ne: "off + ?m \<noteq> length data" "off \<noteq> length data" using more by simp_all
    have tk: "take ?m (drop off data) @ drop (off + ?m) data = drop off data"
      by (metis append_take_drop_id drop_drop add.commute)
    have rp: "INTERMEDIATE # replicate ((length data - (off + ?m) + ?m - 1) div ?m - 1) INTERMEDIATE
        = replicate ((length data - (off + ?m) + ?m - 1) div ?m) INTERMEDIATE"
      using pos by (cases "(length data - (off + ?m) + ?m - 1) div ?m") simp_all
    show ?thesis
      unfolding dsr_more [OF more] d
      using IH ne tk rp by simp
  qed
qed


lemma dsr_zero_nonempty:
  "isFirst \<or> off < length data \<Longrightarrow> off \<le> length data \<Longrightarrow>
   fst (DivideAndSendDataRecursively isFirst i per data (int off) (\<lambda>_. 0) k 0) \<noteq> []"
proof (cases "length data - off > chunk_max per")
  case True
  then show ?thesis by (simp add: dsr_more)
next
  case False
  assume a: "isFirst \<or> off < length data" "off \<le> length data"
  from a(1) have "isFirst \<or> off \<noteq> length data" by auto
  then show ?thesis using False a(2) by (simp add: dsr_last)
qed

lemma dsr_zero_indep:
  "off \<le> length data \<Longrightarrow>
   fst (DivideAndSendDataRecursively isFirst i per data (int off) (\<lambda>_. 0) k 0) =
   fst (DivideAndSendDataRecursively isFirst i per data (int off) (\<lambda>_. 0) k' 0)"
proof (induction "length data - off" arbitrary: off k k' isFirst rule: less_induct)
  case less
  show ?case
  proof (cases "length data - off > chunk_max per")
    case True
    have "fst (DivideAndSendDataRecursively False i per data (int (off + chunk_max per)) (\<lambda>_. 0) (Suc k) 0) =
          fst (DivideAndSendDataRecursively False i per data (int (off + chunk_max per)) (\<lambda>_. 0) (Suc k') 0)"
      using True chunk_max_pos [of per] by (intro less.hyps) simp_all
    then show ?thesis by (simp add: dsr_more [OF True] del: of_nat_add)
  next
    case False
    show ?thesis
    proof (cases "isFirst \<or> off \<noteq> length data")
      case True
      then show ?thesis using False less.prems by (simp add: dsr_last)
    next
      case False
      then show ?thesis by (simp add: dsr_stop)
    qed
  qed
qed

lemma dsr_prefix:
  "off \<le> length data \<Longrightarrow>
   j < length (fst (DivideAndSendDataRecursively isFirst i per data (int off) (\<lambda>_. 0) 0 0)) \<Longrightarrow>
   (\<forall>t<j. sender (k + t) = 0) \<Longrightarrow>
   sender (k + j) \<noteq> 0 \<or>
     Suc j = length (fst (DivideAndSendDataRecursively isFirst i per data (int off) (\<lambda>_. 0) 0 0)) \<Longrightarrow>
   DivideAndSendDataRecursively isFirst i per data (int off) sender k 0 =
     (take (Suc j) (fst (DivideAndSendDataRecursively isFirst i per data (int off) (\<lambda>_. 0) 0 0)),
      sender (k + j))"
proof (induction j arbitrary: off isFirst k)
  case 0
  show ?case
  proof (cases "length data - off > chunk_max per")
    case True
    have "fst (DivideAndSendDataRecursively False i per data (int (off + chunk_max per)) (\<lambda>_. 0) (Suc 0) 0) \<noteq> []"
      using True by (intro dsr_zero_nonempty) simp_all
    then have "sender k \<noteq> 0" using 0(4) by (simp add: dsr_more [OF True] del: of_nat_add)
    then show ?thesis by (simp add: dsr_more [OF True] dsr_stop del: of_nat_add)
  next
    case False
    have "isFirst \<or> off \<noteq> length data"
    proof (rule ccontr)
      assume "\<not> (isFirst \<or> off \<noteq> length data)"
      then have "DivideAndSendDataRecursively isFirst i per data (int off) (\<lambda>_. 0) 0 0 = ([], 0)"
        by (simp add: dsr_stop)
      then show False using 0(2) by simp
    qed
    then show ?thesis using False 0(1) by (simp add: dsr_last)
  qed
next
  case (Suc j)
  show ?case
  proof (cases "length data - off > chunk_max per")
    case True
    let ?z = "fst (DivideAndSendDataRecursively False i per data (int (off + chunk_max per)) (\<lambda>_. 0) 0 0)"
    have z: "fst (DivideAndSendDataRecursively False i per data (int (off + chunk_max per)) (\<lambda>_. 0) (Suc 0) 0) = ?z"
      using True by (intro dsr_zero_indep) simp
    have s0: "sender k = 0" using Suc.prems(3) [rule_format, of 0] by simp
    have le: "off + chunk_max per \<le> length data" using True by simp
    have jl: "j < length ?z" using Suc.prems(2) by (simp add: dsr_more [OF True] z del: of_nat_add)
    have zs: "\<forall>t<j. sender (Suc k + t) = 0"
      using Suc.prems(3) by (metis Suc_less_eq add_Suc_right add_Suc)
    have fin: "sender (Suc k + j) \<noteq> 0 \<or> Suc j = length ?z"
      using Suc.prems(4) by (simp add: dsr_more [OF True] z del: of_nat_add)
    note IH = Suc.IH [OF le jl zs fin]
    show ?thesis
      by (simp add: dsr_more [OF True] z s0 IH del: of_nat_add)
  next
    case False
    have "length (fst (DivideAndSendDataRecursively isFirst i per data (int off) (\<lambda>_. 0) 0 0)) \<le> 1"
    proof (cases "isFirst \<or> off \<noteq> length data")
      case True
      then show ?thesis using False Suc.prems(1) by (simp add: dsr_last)
    next
      case False
      then show ?thesis by (simp add: dsr_stop)
    qed
    then show ?thesis using Suc.prems(2) by simp
  qed
qed


lemma dsr_first_small:
  assumes "length data \<le> chunk_max per"
  shows "DivideAndSendData i data per sender =
    ([\<lparr>c_inst_id = i, c_operation = COMPLETE, c_length = of_nat (length data),
       c_payload = data\<rparr>], sender 0)"
  using dsr_last [of True 0 data per i sender 0] assms
  by (simp add: DivideAndSendData_def)

lemma ceil_small:
  assumes "0 < (l::nat)" "l \<le> m"
  shows "(l + m - 1) div m = 1"
proof -
  have m: "0 < m" using assms by simp
  have "l + m - 1 = (l - 1) + m" using assms by simp
  then have "(l + m - 1) div m = Suc ((l - 1) div m)"
    by (simp only: div_add_m [OF m])
  moreover have "(l - 1) div m = 0" using assms by simp
  ultimately show ?thesis by simp
qed

lemma dsr_first_large:
  assumes "chunk_max per < length data"
  shows "snd (DivideAndSendData i data per (\<lambda>_. 0)) = 0"
    and "length (fst (DivideAndSendData i data per (\<lambda>_. 0))) = (length data + chunk_max per - 1) div chunk_max per"
    and "concat (map c_payload (fst (DivideAndSendData i data per (\<lambda>_. 0)))) = data"
    and "map c_operation (fst (DivideAndSendData i data per (\<lambda>_. 0))) =
         FIRST # replicate ((length data + chunk_max per - 1) div chunk_max per - 2) INTERMEDIATE @ [LAST]"
proof -
  let ?m = "chunk_max per"
  let ?t = "DivideAndSendDataRecursively False i per data (int ?m) (\<lambda>_. 0) (Suc 0) 0"
  have gt: "?m < length data - 0" using assms by simp
  have u: "DivideAndSendData i data per (\<lambda>_. 0) =
     (\<lparr>c_inst_id = i, c_operation = FIRST, c_length = of_nat ?m, c_payload = take ?m data\<rparr> # fst ?t, snd ?t)"
    using dsr_more [OF gt, of True i "\<lambda>_. 0" 0] by (simp add: DivideAndSendData_def)
  have le: "?m \<le> length data" using assms by simp
  define q where "q = (length data - ?m + ?m - 1) div ?m"
  note T = dsr_tail_zero [OF le, of i per "Suc 0", folded q_def]
  have d: "(length data + ?m - 1) div ?m = Suc q"
  proof -
    have "length data + ?m - 1 = (length data - ?m + ?m - 1) + ?m" using assms by simp
    then show ?thesis unfolding q_def by (simp only: div_add_m [OF chunk_max_pos])
  qed
  have ne: "?m \<noteq> length data" using assms by simp
  show "snd (DivideAndSendData i data per (\<lambda>_. 0)) = 0" using T by (simp add: u)
  show "length (fst (DivideAndSendData i data per (\<lambda>_. 0))) = (length data + ?m - 1) div ?m"
    unfolding d using T by (simp add: u)
  show "concat (map c_payload (fst (DivideAndSendData i data per (\<lambda>_. 0)))) = data"
    using T by (simp add: u)
  show "map c_operation (fst (DivideAndSendData i data per (\<lambda>_. 0))) =
         FIRST # replicate ((length data + ?m - 1) div ?m - 2) INTERMEDIATE @ [LAST]"
    unfolding d using T ne by (simp add: u)
qed

text \<open>
  Claim C1. When every chunk is answered with status 0, the fragmenter reports status 0
  to the done callback, sends one \<open>COMPLETE\<close> chunk if the payload is at most the
  chunk maximum (251 bytes, 252 for periodic data) and otherwise \<open>FIRST\<close>, then
  \<open>INTERMEDIATE\<close> chunks, then \<open>LAST\<close>; the chunk payloads concatenate to the
  payload, and there are \<open>\<lceil>len / chunk_max\<rceil>\<close> chunks (one for the empty payload).
  For any other status sequence the chain stops after the first chunk that is answered
  with a non-zero status (or after the last chunk) and reports that status.
\<close>

theorem fragmenter_chunks:
  "let m = chunk_max per;
       n = (if data = [] then 1 else (length data + m - 1) div m);
       sent = fst (DivideAndSendData i data per (\<lambda>_. 0))
   in DivideAndSendData i data per (\<lambda>_. 0) = (sent, 0)
    \<and> length sent = n
    \<and> concat (map c_payload sent) = data
    \<and> (length data \<le> m \<longrightarrow> map c_operation sent = [COMPLETE])
    \<and> (m < length data \<longrightarrow>
          map c_operation sent = FIRST # replicate (n - 2) INTERMEDIATE @ [LAST])
    \<and> (\<forall>j<n. (\<forall>t<j. sender t = 0) \<longrightarrow> (sender j \<noteq> 0 \<or> Suc j = n) \<longrightarrow>
          DivideAndSendData i data per sender = (take (Suc j) sent, sender j))"
proof -
  let ?m = "chunk_max per"
  let ?n = "if data = [] then 1 else (length data + ?m - 1) div ?m"
  let ?sent = "fst (DivideAndSendData i data per (\<lambda>_. 0))"
  have len: "length ?sent = ?n" and st: "snd (DivideAndSendData i data per (\<lambda>_. 0)) = 0"
    and cat: "concat (map c_payload ?sent) = data"
    and small: "length data \<le> ?m \<longrightarrow> map c_operation ?sent = [COMPLETE]"
    and large: "?m < length data \<longrightarrow>
          map c_operation ?sent = FIRST # replicate (?n - 2) INTERMEDIATE @ [LAST]"
  proof -
    show "length ?sent = ?n"
    proof (cases "length data \<le> ?m")
      case True
      then show ?thesis using ceil_small [of "length data" ?m]
        by (cases "data = []") (simp_all add: dsr_first_small)
    next
      case False
      then show ?thesis using dsr_first_large(2) [of per data i] by auto
    qed
    show "snd (DivideAndSendData i data per (\<lambda>_. 0)) = 0"
      using dsr_first_large(1) [of per data i] dsr_first_small [of data per i "\<lambda>_. 0"]
      by (cases "length data \<le> ?m") simp_all
    show "concat (map c_payload ?sent) = data"
      using dsr_first_large(3) [of per data i] dsr_first_small [of data per i "\<lambda>_. 0"]
      by (cases "length data \<le> ?m") simp_all
    show "length data \<le> ?m \<longrightarrow> map c_operation ?sent = [COMPLETE]"
      by (simp add: dsr_first_small)
    show "?m < length data \<longrightarrow>
          map c_operation ?sent = FIRST # replicate (?n - 2) INTERMEDIATE @ [LAST]"
      using dsr_first_large(4) [of per data i] by auto
  qed
  have pre: "\<forall>j<?n. (\<forall>t<j. sender t = 0) \<longrightarrow> (sender j \<noteq> 0 \<or> Suc j = ?n) \<longrightarrow>
          DivideAndSendData i data per sender = (take (Suc j) ?sent, sender j)"
  proof (intro allI impI)
    fix j assume j: "j < ?n" and z: "\<forall>t<j. sender t = 0" and f: "sender j \<noteq> 0 \<or> Suc j = ?n"
    have "DivideAndSendDataRecursively True i per data (int 0) sender 0 0 =
     (take (Suc j) (fst (DivideAndSendDataRecursively True i per data (int 0) (\<lambda>_. 0) 0 0)),
      sender (0 + j))"
      using j z f len by (intro dsr_prefix) (simp_all add: DivideAndSendData_def)
    then show "DivideAndSendData i data per sender = (take (Suc j) ?sent, sender j)"
      by (simp add: DivideAndSendData_def)
  qed
  have full: "DivideAndSendData i data per (\<lambda>_. 0) = (?sent, 0)"
    using st by (simp add: prod_eq_iff)
  show ?thesis
    unfolding Let_def using full len cat small large pre by blast
qed


text \<open>
  The fragment scenario of the specification: 300 bytes, not periodic, are sent as
  \<open>FIRST\<close> and \<open>LAST\<close>; a failure of the first chunk stops the chain there.
\<close>

theorem fragmenter_chunks_witness:
  "chunk_max False < length (replicate 300 (0x41 :: u8)) \<and>
   length (fst (DivideAndSendData 1 (replicate 300 0x41) False (\<lambda>_. 0))) = 2 \<and>
   map c_operation (fst (DivideAndSendData 1 (replicate 300 0x41) False (\<lambda>_. 0))) = [FIRST, LAST] \<and>
   (0::nat) < 2 \<and> (\<lambda>k. if k = 0 then 0x12 else 0 :: u8) 0 \<noteq> 0 \<and>
   DivideAndSendData 1 (replicate 300 0x41) False (\<lambda>k. if k = 0 then 0x12 else 0) =
     (take 1 (fst (DivideAndSendData 1 (replicate 300 0x41) False (\<lambda>_. 0))), 0x12)"
proof -
  have n: "(300 + chunk_max False - 1) div chunk_max False = 2"
    by (simp add: chunk_max_eq)
  have gt: "chunk_max False < 300" by (simp add: chunk_max_eq)
  note F = fragmenter_chunks [of False "replicate 300 (0x41 :: u8)" 1
      "\<lambda>k. if k = 0 then 0x12 else 0", unfolded Let_def]
  have a: "length (fst (DivideAndSendData 1 (replicate 300 (0x41 :: u8)) False (\<lambda>_. 0))) = 2"
    using F n by simp
  have b: "map c_operation (fst (DivideAndSendData 1 (replicate 300 (0x41 :: u8)) False (\<lambda>_. 0))) = [FIRST, LAST]"
    using F n gt by simp
  have c: "DivideAndSendData 1 (replicate 300 (0x41 :: u8)) False (\<lambda>k. if k = 0 then 0x12 else 0) =
     (take 1 (fst (DivideAndSendData 1 (replicate 300 0x41) False (\<lambda>_. 0))), 0x12)"
  proof -
    from F have "\<forall>j<(if replicate 300 (0x41 :: u8) = [] then 1
          else (length (replicate 300 (0x41 :: u8)) + chunk_max False - 1) div chunk_max False).
        (\<forall>t<j. (if t = 0 then 0x12 else 0 :: u8) = 0) \<longrightarrow>
        ((if j = 0 then 0x12 else 0 :: u8) \<noteq> 0 \<or> Suc j =
          (if replicate 300 (0x41 :: u8) = [] then 1
           else (length (replicate 300 (0x41 :: u8)) + chunk_max False - 1) div chunk_max False)) \<longrightarrow>
        DivideAndSendData 1 (replicate 300 (0x41 :: u8)) False (\<lambda>k. if k = 0 then 0x12 else 0) =
          (take (Suc j) (fst (DivideAndSendData 1 (replicate 300 0x41) False (\<lambda>_. 0))),
           if j = 0 then 0x12 else 0)"
      by blast
    from this [rule_format, of 0] n show ?thesis by simp
  qed
  show ?thesis using a b c gt by simp
qed


subsection \<open>RecomputeTimeout\<close>

lemma tdiv_nonneg: "0 \<le> a \<Longrightarrow> 0 < b \<Longrightarrow> tdiv a b = a div b"
  by (simp add: tdiv_def sgn_if)

lemma to_int_id: "0 \<le> x \<Longrightarrow> x < 2 ^ 31 \<Longrightarrow> to_int x = x"
  unfolding to_int_def by (simp add: sint_sbintrunc' signed_take_bit_int_eq_self)

lemma elapsed_parts:
  assumes "enable_time inst \<le> now" "(now - enable_time inst) div 1000 < 2 ^ 31 - 1"
  shows "to_int (tdiv (InMilliseconds (now - enable_time inst)) 10) = (now - enable_time inst) div 1000 div 10"
    and "0 < d \<Longrightarrow> to_int (tdiv (InMilliseconds (now - enable_time inst)) d) = (now - enable_time inst) div 1000 div d"
    and "0 < d \<Longrightarrow> (now - enable_time inst) div 1000 div d < 2 ^ 31 - 1"
proof -
  let ?e = "(now - enable_time inst) div 1000"
  have e0: "0 \<le> ?e" using assms(1) by simp
  have ms: "InMilliseconds (now - enable_time inst) = ?e"
    using assms(1) by (simp add: InMilliseconds_def tdiv_nonneg)
  have b: "0 < d \<Longrightarrow> 0 \<le> ?e div d \<and> ?e div d < 2 ^ 31 - 1" for d
  proof -
    assume d: "0 < d"
    have "?e div d \<le> ?e div 1" using e0 d by (intro zdiv_mono2) simp_all
    then have le: "?e div d \<le> ?e" by simp
    moreover have "0 \<le> ?e div d" using e0 d by (simp add: pos_imp_zdiv_nonneg_iff)
    ultimately show ?thesis using le assms(2) by simp
  qed
  show "0 < d \<Longrightarrow> to_int (tdiv (InMilliseconds (now - enable_time inst)) d) = ?e div d"
    using b [of d] e0 by (simp add: ms tdiv_nonneg to_int_id)
  show "0 < d \<Longrightarrow> ?e div d < 2 ^ 31 - 1"
    using b [of d] by simp
  show "to_int (tdiv (InMilliseconds (now - enable_time inst)) 10) = ?e div 10"
    using b [of 10] e0 by (simp add: ms tdiv_nonneg to_int_id)
qed


lemma RecomputeTimeout_refines:
  assumes t: "enable_time inst \<le> now" "(now - enable_time inst) div 1000 < 2 ^ 31 - 1"
    and cb: "timeout_cb inst \<noteq> NullCb"
    and dv: "maxExtAdvEvents inst \<noteq> 0 \<longrightarrow> advertising_interval inst * 5 div 8 \<noteq> 0"
  shows "RecomputeTimeout inst now = Inr (RecomputeTimeout_spec inst now)"
proof -
  let ?e = "(now - enable_time inst) div 1000"
  let ?d = "uint (advertising_interval inst * 5 div 8)"
  note dd = elapsed_parts(1) [OF t]
  have dn: "(now - enable_time inst) div 1000 div 10 \<noteq> 2 ^ 31 - 1"
    using elapsed_parts(3) [OF t, of 10] by simp
  show ?thesis
  proof (cases "maxExtAdvEvents inst = 0")
    case True
    then show ?thesis
      using cb dn by (simp add: RecomputeTimeout_def RecomputeTimeout_spec_def Let_def dd)
  next
    case False
    then have nz: "advertising_interval inst * 5 div 8 \<noteq> 0" using dv by simp
    then have "0 < ?d" by (metis uint_0_iff uint_nonnegative order_less_le word_uint_eq_iff uint_0_eq)
    then have en: "(now - enable_time inst) div 1000 div ?d \<noteq> 2 ^ 31 - 1"
      using elapsed_parts(3) [OF t, of ?d] by simp
    note ed = elapsed_parts(2) [OF t \<open>0 < ?d\<close>]
    show ?thesis
      using cb False nz dn en
      by (simp add: RecomputeTimeout_def RecomputeTimeout_spec_def Let_def dd ed)
  qed
qed


lemma ms_111: "to_int (tdiv (InMilliseconds 111000) 10) = 11"
  and ms_250: "to_int (tdiv (InMilliseconds 250000) 10) = 25"
  and ms_495: "to_int (tdiv (InMilliseconds 495000) 10) = 49"
  by (simp_all add: InMilliseconds_def tdiv_def to_int_def)

lemma scenario_shutdown:
  "duration i = 12 \<Longrightarrow> timeout_cb i \<noteq> NullCb \<Longrightarrow>
   RecomputeTimeout i (enable_time i + 111000) = Inr (i\<lparr>enable_status := False\<rparr>, [0])"
  by (simp add: RecomputeTimeout_def Let_def ms_111)

lemma scenario_adjust:
  "duration i = 50 \<Longrightarrow> maxExtAdvEvents i = 50 \<Longrightarrow> advertising_interval i = 16 \<Longrightarrow>
   RecomputeTimeout i (enable_time i + 250000) =
     Inr (i\<lparr>duration := 25, maxExtAdvEvents := 25\<rparr>, [])"
  by (simp add: RecomputeTimeout_def Let_def ms_250 InMilliseconds_def tdiv_def to_int_def)

lemma scenario_event_exhaust:
  assumes "maxExtAdvEvents i = 50" "advertising_interval i = 16" "timeout_cb i \<noteq> NullCb"
  shows "\<exists>i'. RecomputeTimeout i (enable_time i + 495000) = Inr (i', [0]) \<and> \<not> enable_status i'"
proof -
  consider (a) "duration i = 0" | (b) "duration i \<noteq> 0" "uint (duration i) \<le> 50"
    | (c) "50 < uint (duration i)" by linarith
  then show ?thesis
  proof cases
    case a
    then show ?thesis using assms
      by (simp add: RecomputeTimeout_def Let_def InMilliseconds_def tdiv_def to_int_def)
  next
    case b
    then show ?thesis using assms
      by (simp add: RecomputeTimeout_def Let_def ms_495)
  next
    case c
    then have "duration i \<noteq> 0" by auto
    then show ?thesis using assms c
      by (simp add: RecomputeTimeout_def Let_def ms_495 InMilliseconds_def tdiv_def to_int_def)
  qed
qed


text \<open>
  Claim C2, amended. For an instance with a callback, enabled at most \<open>2^31 - 1\<close>
  milliseconds before \<open>now\<close>, and with \<open>advertising_interval * 5 / 8 \<noteq> 0\<close> (in 32-bit
  arithmetic) when it has an event budget, \<open>RecomputeTimeout\<close> does what the
  specification says: it subtracts the elapsed 10 ms units from a nonzero \<open>duration\<close>
  and the estimated events from a nonzero \<open>maxExtAdvEvents\<close>, and when a budget is
  exhausted within one tick it clears \<open>enable_status\<close> and runs \<open>timeout_cb\<close>. The three
  scenarios of the specification hold for every instance with the stated fields.
\<close>

theorem RecomputeTimeout_budgets:
  "(enable_time inst \<le> now \<and> (now - enable_time inst) div 1000 < 2 ^ 31 - 1 \<and>
    timeout_cb inst \<noteq> NullCb \<and>
    (maxExtAdvEvents inst \<noteq> 0 \<longrightarrow> advertising_interval inst * 5 div 8 \<noteq> 0) \<longrightarrow>
      RecomputeTimeout inst now = Inr (RecomputeTimeout_spec inst now)) \<and>
   (duration i1 = 12 \<and> timeout_cb i1 \<noteq> NullCb \<longrightarrow>
      RecomputeTimeout i1 (enable_time i1 + 111000) = Inr (i1\<lparr>enable_status := False\<rparr>, [0])) \<and>
   (duration i2 = 50 \<and> maxExtAdvEvents i2 = 50 \<and> advertising_interval i2 = 16 \<longrightarrow>
      RecomputeTimeout i2 (enable_time i2 + 250000) =
        Inr (i2\<lparr>duration := 25, maxExtAdvEvents := 25\<rparr>, [])) \<and>
   (maxExtAdvEvents i3 = 50 \<and> advertising_interval i3 = 16 \<and> timeout_cb i3 \<noteq> NullCb \<longrightarrow>
      (\<exists>i'. RecomputeTimeout i3 (enable_time i3 + 495000) = Inr (i', [0]) \<and>
            \<not> enable_status i'))"
  using RecomputeTimeout_refines [of inst now] scenario_shutdown [of i1]
    scenario_adjust [of i2] scenario_event_exhaust [of i3]
  by blast

theorem RecomputeTimeout_budgets_witness:
  "RecomputeTimeout (test_instance\<lparr>duration := 50, maxExtAdvEvents := 50, advertising_interval := 16\<rparr>)
     1250000 =
     Inr (test_instance\<lparr>duration := 25, maxExtAdvEvents := 25, advertising_interval := 16\<rparr>, []) \<and>
   RecomputeTimeout (test_instance\<lparr>duration := 12\<rparr>) 1111000 =
     Inr (test_instance\<lparr>duration := 12, enable_status := False\<rparr>, [0]) \<and>
   (\<exists>i'. RecomputeTimeout (test_instance\<lparr>maxExtAdvEvents := 50, advertising_interval := 16\<rparr>)
           1495000 = Inr (i', [0]) \<and> \<not> enable_status i')"
proof -
  let ?a = "test_instance\<lparr>duration := 50, maxExtAdvEvents := 50, advertising_interval := 16\<rparr>"
  let ?b = "test_instance\<lparr>duration := 12\<rparr>"
  let ?c = "test_instance\<lparr>maxExtAdvEvents := 50, advertising_interval := 16\<rparr>"
  note T = RecomputeTimeout_budgets [of ?a 1250000 ?b ?a ?c]
  have h: "enable_time ?a \<le> 1250000 \<and> (1250000 - enable_time ?a) div 1000 < 2 ^ 31 - 1 \<and>
    timeout_cb ?a \<noteq> NullCb \<and>
    (maxExtAdvEvents ?a \<noteq> 0 \<longrightarrow> advertising_interval ?a * 5 div 8 \<noteq> 0)"
    by (simp add: test_instance_def AdvertisingInstance_ctor_def)
  have a: "RecomputeTimeout ?a 1250000 = Inr (RecomputeTimeout_spec ?a 1250000)"
    using T h by blast
  have sp: "RecomputeTimeout_spec ?a 1250000 =
     (test_instance\<lparr>duration := 25, maxExtAdvEvents := 25, advertising_interval := 16\<rparr>, [])"
    by (simp add: RecomputeTimeout_spec_def test_instance_def AdvertisingInstance_ctor_def)
  have b: "RecomputeTimeout ?b (enable_time ?b + 111000) = Inr (?b\<lparr>enable_status := False\<rparr>, [0])"
    using T by (simp add: test_instance_def AdvertisingInstance_ctor_def)
  have c: "\<exists>i'. RecomputeTimeout ?c (enable_time ?c + 495000) = Inr (i', [0]) \<and> \<not> enable_status i'"
    using T by (simp add: test_instance_def AdvertisingInstance_ctor_def)
  have tb: "enable_time ?b + 111000 = 1111000" "enable_time ?c + 495000 = 1495000"
    by (simp_all add: test_instance_def AdvertisingInstance_ctor_def)
  show ?thesis using a sp b c unfolding tb by simp
qed

text \<open>
  Claim C2 as stated, for every instance and every time, fails: with
  \<open>advertising_interval = 1\<close> the divisor is 0; with a null \<open>timeout_cb\<close> the expired
  budget runs a null callback; and after \<open>2^32 * 10\<close> ms the \<open>int\<close> that holds the
  elapsed units is 0, so that an expired \<open>duration\<close> of 12 is left as it is.
\<close>

theorem RecomputeTimeout_budgets_counterexample:
  "RecomputeTimeout (test_instance\<lparr>maxExtAdvEvents := 50, advertising_interval := 1\<rparr>) 1250000 =
     Inl DivisionByZero \<and>
   RecomputeTimeout (test_instance\<lparr>duration := 12, timeout_cb := NullCb\<rparr>) 1111000 =
     Inl NullCallback \<and>
   RecomputeTimeout (test_instance\<lparr>duration := 12\<rparr>) (1000000 + 42949672960000) =
     Inr (test_instance\<lparr>duration := 12\<rparr>, [])"
  by (simp add: RecomputeTimeout_def Let_def test_instance_def AdvertisingInstance_ctor_def
      InMilliseconds_def tdiv_def to_int_def)

text \<open>
  Claim C9. One call of \<open>RecomputeTimeout\<close> runs \<open>timeout_cb\<close> at most once. When the
  duration budget expires the callback runs once and the call returns with nothing but
  \<open>enable_status\<close> changed: the branch of \<open>maxExtAdvEvents\<close> is skipped, so that
  \<open>maxExtAdvEvents\<close> is left as it was, whatever the event budget and the interval.
\<close>

theorem RecomputeTimeout_fires_once:
  "(case RecomputeTimeout inst now of
      Inl e \<Rightarrow> True
    | Inr (inst', fired) \<Rightarrow> length fired \<le> 1) \<and>
   (duration inst \<noteq> 0 \<and> timeout_cb inst \<noteq> NullCb \<and>
    to_int (tdiv (InMilliseconds (now - enable_time inst)) 10) \<noteq> 2 ^ 31 - 1 \<and>
    uint (duration inst) \<le> to_int (tdiv (InMilliseconds (now - enable_time inst)) 10) + 1 \<longrightarrow>
      RecomputeTimeout inst now = Inr (inst\<lparr>enable_status := False\<rparr>, [0]))"
  by (simp add: RecomputeTimeout_def Let_def split: sum.splits)

theorem RecomputeTimeout_fires_once_witness:
  "RecomputeTimeout (test_instance\<lparr>duration := 12, maxExtAdvEvents := 1, advertising_interval := 16\<rparr>)
     1111000 =
     Inr (test_instance\<lparr>duration := 12, maxExtAdvEvents := 1, advertising_interval := 16,
            enable_status := False\<rparr>, [0])"
proof -
  let ?i = "test_instance\<lparr>duration := 12, maxExtAdvEvents := 1, advertising_interval := 16\<rparr>"
  have h: "duration ?i \<noteq> 0 \<and> timeout_cb ?i \<noteq> NullCb \<and>
     to_int (tdiv (InMilliseconds (1111000 - enable_time ?i)) 10) \<noteq> 2 ^ 31 - 1 \<and>
     uint (duration ?i) \<le> to_int (tdiv (InMilliseconds (1111000 - enable_time ?i)) 10) + 1"
    by (simp add: test_instance_def AdvertisingInstance_ctor_def InMilliseconds_def tdiv_def to_int_def)
  from RecomputeTimeout_fires_once [of ?i 1111000] h
  have "RecomputeTimeout ?i 1111000 = Inr (?i\<lparr>enable_status := False\<rparr>, [0])" by blast
  then show ?thesis by simp
qed

subsection \<open>ConfigureRpa\<close>

lemma upd_inst_simps [simp]:
  "trace (upd_inst i f st) = trace st"
  "hci_seq (upd_inst i f st) = hci_seq st"
  "inst_count (upd_inst i f st) = inst_count st"
  "rpa_gen_offload_enabled (upd_inst i f st) = rpa_gen_offload_enabled st"
  "iso_big_inst (upd_inst i f st) = iso_big_inst st"
  "length (adv_inst (upd_inst i f st)) = length (adv_inst st)"
  by (simp_all add: upd_inst_def)

lemma upd_inst_nth [simp]:
  "i < length (adv_inst st) \<Longrightarrow> adv_inst (upd_inst i f st) ! i = f (adv_inst st ! i)"
  by (simp add: upd_inst_def)

lemma upd_inst_nth_other [simp]:
  "j \<noteq> i \<Longrightarrow> adv_inst (upd_inst i f st) ! j = adv_inst st ! j"
  by (simp add: upd_inst_def)

lemma upd_inst_upd_inst [simp]:
  "upd_inst i f (upd_inst i g st) = upd_inst i (\<lambda>p. f (g p)) st"
  by (cases "i < length (adv_inst st)") (simp_all add: upd_inst_def list_update_beyond)

lemma upd_inst_eqI:
  "f (adv_inst st ! i) = g (adv_inst st ! i) \<Longrightarrow> upd_inst i f st = upd_inst i g st"
  by (simp add: upd_inst_def)

text \<open>
  Claim C3, amended. For an enabled, connectable instance with a nonzero duration or
  event budget that is not in the throttled branch, \<open>ConfigureRpa\<close> sets
  \<open>address_update_required\<close> (and, for a broadcast set, restarts the throttle count),
  asks for no address, hands no command to the HCI interface, and runs \<open>configuredCb\<close>
  once, with status \<open>0x01\<close>.
\<close>

theorem ConfigureRpa_defers:
  assumes "p_inst < length (adv_inst st)"
    and "IsEnabled (adv_inst st ! p_inst)" "IsConnectable (adv_inst st ! p_inst)"
    and "duration (adv_inst st ! p_inst) \<noteq> 0 \<or> maxExtAdvEvents (adv_inst st ! p_inst) \<noteq> 0"
    and "\<not> (skip_rpa (adv_inst st ! p_inst) \<and> skip_rpa_count (adv_inst st ! p_inst) > 0)"
  shows "ConfigureRpa E p_inst configuredCb st =
           configuredCb 0x01
             (upd_inst p_inst
                (\<lambda>p. p\<lparr>skip_rpa_count := (if skip_rpa p then 15 else skip_rpa_count p),
                        address_update_required := True\<rparr>) st)"
proof -
  let ?p = "adv_inst st ! p_inst"
  let ?st1 = "if skip_rpa ?p then upd_inst p_inst (\<lambda>p. p\<lparr>skip_rpa_count := 15\<rparr>) st else st"
  have "ConfigureRpa E p_inst configuredCb st =
      configuredCb 0x01 (upd_inst p_inst (\<lambda>p. p\<lparr>address_update_required := True\<rparr>) ?st1)"
    using assms by (cases "skip_rpa ?p") (simp_all add: ConfigureRpa_def Let_def)
  moreover have "upd_inst p_inst (\<lambda>p. p\<lparr>address_update_required := True\<rparr>) ?st1 =
      upd_inst p_inst (\<lambda>p. p\<lparr>skip_rpa_count := (if skip_rpa p then 15 else skip_rpa_count p),
                        address_update_required := True\<rparr>) st"
    by (cases "skip_rpa ?p") (auto intro: upd_inst_eqI)
  ultimately show ?thesis by simp
qed

text \<open>
  Claim C8. For a broadcast set with \<open>skip_rpa_count > 0\<close>, \<open>ConfigureRpa\<close> only
  decrements \<open>skip_rpa_count\<close>: the result does not depend on \<open>configuredCb\<close>, and the
  trace and every other field are as before. An \<open>Enable\<close> that reaches \<open>ConfigureRpa\<close>
  through \<open>address_update_required\<close> then ends without running its callback and
  without a command.
\<close>

theorem ConfigureRpa_throttled:
  assumes "p_inst < length (adv_inst st)"
    and "skip_rpa (adv_inst st ! p_inst)" "skip_rpa_count (adv_inst st ! p_inst) > 0"
  shows "ConfigureRpa E p_inst configuredCb st =
           Inr (upd_inst p_inst (\<lambda>p. p\<lparr>skip_rpa_count := skip_rpa_count p - 1\<rparr>) st) \<and>
         (inst_id' < inst_count st \<and> unat inst_id' = p_inst \<and> in_use (adv_inst st ! p_inst) \<and>
          address_update_required (adv_inst st ! p_inst) \<and> \<not> rpa_gen_offload_enabled st \<longrightarrow>
          Enable E inst_id' True cb duration' maxExtAdvEvents' timeout_cb' st =
            Inr (upd_inst p_inst
                   (\<lambda>p. p\<lparr>timeout_cb := (if duration' \<noteq> 0 \<or> maxExtAdvEvents' \<noteq> 0
                                           then timeout_cb' else timeout_cb p),
                           duration := duration', maxExtAdvEvents := maxExtAdvEvents',
                           address_update_required := False,
                           skip_rpa_count := skip_rpa_count p - 1\<rparr>) st))"
proof -
  have a: "ConfigureRpa E p_inst configuredCb st =
           Inr (upd_inst p_inst (\<lambda>p. p\<lparr>skip_rpa_count := skip_rpa_count p - 1\<rparr>) st)"
    if "p_inst < length (adv_inst st)" "skip_rpa (adv_inst st ! p_inst)"
       "skip_rpa_count (adv_inst st ! p_inst) > 0"
    for configuredCb st
    using that by (simp add: ConfigureRpa_def Let_def)
  have b: "Enable E inst_id' True cb duration' maxExtAdvEvents' timeout_cb' st =
            Inr (upd_inst p_inst
                   (\<lambda>p. p\<lparr>timeout_cb := (if duration' \<noteq> 0 \<or> maxExtAdvEvents' \<noteq> 0
                                           then timeout_cb' else timeout_cb p),
                           duration := duration', maxExtAdvEvents := maxExtAdvEvents',
                           address_update_required := False,
                           skip_rpa_count := skip_rpa_count p - 1\<rparr>) st)"
    if h: "inst_id' < inst_count st" "unat inst_id' = p_inst" "in_use (adv_inst st ! p_inst)"
      "address_update_required (adv_inst st ! p_inst)" "\<not> rpa_gen_offload_enabled st"
  proof -
    have nge: "\<not> inst_count st \<le> inst_id'" using h(1) by simp
    show ?thesis
      using assms h nge
      by (cases "duration' \<noteq> 0 \<or> maxExtAdvEvents' \<noteq> 0")
         (auto simp: Enable_def Let_def a intro!: upd_inst_eqI)
  qed
  show ?thesis using a [OF assms] b by blast
qed

lemma test_mgr_simps [simp]:
  "length (adv_inst test_mgr) = 2" "inst_count test_mgr = 2" "trace test_mgr = []"
  "hci_seq test_mgr = 0" "rpa_gen_offload_enabled test_mgr = False"
  "adv_inst test_mgr ! 0 = AdvertisingInstance_ctor test_env 0"
  "adv_inst test_mgr ! Suc 0 = AdvertisingInstance_ctor test_env 1"
  "length (iso_big_inst test_mgr) = 2"
  by (simp_all add: test_mgr_def)

theorem ConfigureRpa_defers_witness:
  "ConfigureRpa test_env 0 (client_cb 5) capped_mgr =
     Inr (emit (RunMultiAdvCb (ClientCb 5) 0x01)
            (upd_inst 0 (\<lambda>p. p\<lparr>address_update_required := True\<rparr>) capped_mgr))"
proof -
  have "ConfigureRpa test_env 0 (client_cb 5) capped_mgr =
        client_cb 5 0x01
          (upd_inst 0 (\<lambda>p. p\<lparr>skip_rpa_count := (if skip_rpa p then 15 else skip_rpa_count p),
                        address_update_required := True\<rparr>) capped_mgr)"
    by (rule ConfigureRpa_defers)
       (simp_all add: capped_mgr_def AdvertisingInstance_ctor_def IsEnabled_def
          IsConnectable_def is_connectable_def)
  moreover have "upd_inst 0 (\<lambda>p. p\<lparr>skip_rpa_count := (if skip_rpa p then 15 else skip_rpa_count p),
                        address_update_required := True\<rparr>) capped_mgr =
       upd_inst 0 (\<lambda>p. p\<lparr>address_update_required := True\<rparr>) capped_mgr"
    by (rule upd_inst_eqI) (simp add: capped_mgr_def AdvertisingInstance_ctor_def)
  ultimately show ?thesis by (simp add: client_cb_def)
qed

text \<open>
  Claim C3 as stated fails: the status given to \<open>configuredCb\<close> is \<open>0x01\<close>, not the
  success status 0.
\<close>

theorem ConfigureRpa_defers_counterexample:
  "ConfigureRpa test_env 0 (client_cb 5) capped_mgr =
     client_cb 5 0x01 (upd_inst 0 (\<lambda>p. p\<lparr>address_update_required := True\<rparr>) capped_mgr) \<and>
   ConfigureRpa test_env 0 (client_cb 5) capped_mgr \<noteq>
     client_cb 5 BTM_BLE_MULTI_ADV_SUCCESS
       (upd_inst 0 (\<lambda>p. p\<lparr>address_update_required := True\<rparr>) capped_mgr)"
proof -
  have r: "ConfigureRpa test_env 0 (client_cb 5) capped_mgr =
     client_cb 5 0x01 (upd_inst 0 (\<lambda>p. p\<lparr>address_update_required := True\<rparr>) capped_mgr)"
    by (simp add: ConfigureRpa_def Let_def capped_mgr_def AdvertisingInstance_ctor_def
        IsEnabled_def IsConnectable_def is_connectable_def)
  have "client_cb 5 0x01 (upd_inst 0 (\<lambda>p. p\<lparr>address_update_required := True\<rparr>) capped_mgr) \<noteq>
     client_cb 5 BTM_BLE_MULTI_ADV_SUCCESS
       (upd_inst 0 (\<lambda>p. p\<lparr>address_update_required := True\<rparr>) capped_mgr)"
  proof
    assume "client_cb 5 0x01 (upd_inst 0 (\<lambda>p. p\<lparr>address_update_required := True\<rparr>) capped_mgr) =
     client_cb 5 BTM_BLE_MULTI_ADV_SUCCESS
       (upd_inst 0 (\<lambda>p. p\<lparr>address_update_required := True\<rparr>) capped_mgr)"
    then have "trace (emit (RunMultiAdvCb (ClientCb 5) 0x01)
                 (upd_inst 0 (\<lambda>p. p\<lparr>address_update_required := True\<rparr>) capped_mgr)) =
               trace (emit (RunMultiAdvCb (ClientCb 5) BTM_BLE_MULTI_ADV_SUCCESS)
                 (upd_inst 0 (\<lambda>p. p\<lparr>address_update_required := True\<rparr>) capped_mgr))"
      by (simp add: client_cb_def)
    then show False by (simp add: emit_def BTM_BLE_MULTI_ADV_SUCCESS_def)
  qed
  with r show ?thesis by simp
qed

theorem ConfigureRpa_throttled_witness:
  "ConfigureRpa test_env 0 (client_cb 5) throttled_mgr =
     Inr (upd_inst 0 (\<lambda>p. p\<lparr>skip_rpa_count := 14\<rparr>) throttled_mgr) \<and>
   Enable test_env 0 True (client_cb 5) 100 0 (ClientCb 6) throttled_mgr =
     Inr (upd_inst 0 (\<lambda>p. p\<lparr>timeout_cb := ClientCb 6, duration := 100, maxExtAdvEvents := 0,
            address_update_required := False, skip_rpa_count := 14\<rparr>) throttled_mgr) \<and>
   trace (upd_inst 0 (\<lambda>p. p\<lparr>timeout_cb := ClientCb 6, duration := 100, maxExtAdvEvents := 0,
            address_update_required := False, skip_rpa_count := 14\<rparr>) throttled_mgr) = []"
proof -
  have h: "0 < length (adv_inst throttled_mgr)" "skip_rpa (adv_inst throttled_mgr ! 0)"
    "skip_rpa_count (adv_inst throttled_mgr ! 0) > 0"
    by (simp_all add: throttled_mgr_def AdvertisingInstance_ctor_def)
  have g: "(0::u8) < inst_count throttled_mgr \<and> unat (0::u8) = 0 \<and> in_use (adv_inst throttled_mgr ! 0) \<and>
          address_update_required (adv_inst throttled_mgr ! 0) \<and> \<not> rpa_gen_offload_enabled throttled_mgr"
    by (simp add: throttled_mgr_def AdvertisingInstance_ctor_def)
  note T = ConfigureRpa_throttled [OF h, of test_env "client_cb 5" 0 "client_cb 5" 100 0 "ClientCb 6"]
  have a: "ConfigureRpa test_env 0 (client_cb 5) throttled_mgr =
     Inr (upd_inst 0 (\<lambda>p. p\<lparr>skip_rpa_count := skip_rpa_count p - 1\<rparr>) throttled_mgr)"
    using T by blast
  have b: "Enable test_env 0 True (client_cb 5) 100 0 (ClientCb 6) throttled_mgr =
            Inr (upd_inst 0
                   (\<lambda>p. p\<lparr>timeout_cb := (if (100::u16) \<noteq> 0 \<or> (0::u8) \<noteq> 0
                                           then ClientCb 6 else timeout_cb p),
                           duration := 100, maxExtAdvEvents := 0,
                           address_update_required := False,
                           skip_rpa_count := skip_rpa_count p - 1\<rparr>) throttled_mgr)"
    using T g by blast
  have e1: "upd_inst 0 (\<lambda>p. p\<lparr>skip_rpa_count := skip_rpa_count p - 1\<rparr>) throttled_mgr =
     upd_inst 0 (\<lambda>p. p\<lparr>skip_rpa_count := 14\<rparr>) throttled_mgr"
    by (rule upd_inst_eqI) (simp add: throttled_mgr_def AdvertisingInstance_ctor_def)
  have e2: "upd_inst 0
                   (\<lambda>p. p\<lparr>timeout_cb := (if (100::u16) \<noteq> 0 \<or> (0::u8) \<noteq> 0
                                           then ClientCb 6 else timeout_cb p),
                           duration := 100, maxExtAdvEvents := 0,
                           address_update_required := False,
                           skip_rpa_count := skip_rpa_count p - 1\<rparr>) throttled_mgr =
     upd_inst 0 (\<lambda>p. p\<lparr>timeout_cb := ClientCb 6, duration := 100, maxExtAdvEvents := 0,
            address_update_required := False, skip_rpa_count := 14\<rparr>) throttled_mgr"
    by (rule upd_inst_eqI) (simp add: throttled_mgr_def AdvertisingInstance_ctor_def)
  show ?thesis using a b unfolding e1 e2 by (simp add: throttled_mgr_def)
qed

subsection \<open>Enable\<close>


lemma hci0_simps [simp]:
  "trace (hci0 c st) = trace st @ [Hci c]"
  "hci_seq (hci0 c st) = Suc (hci_seq st)"
  "adv_inst (hci0 c st) = adv_inst st"
  "inst_count (hci0 c st) = inst_count st"
  "rpa_gen_offload_enabled (hci0 c st) = rpa_gen_offload_enabled st"
  "iso_big_inst (hci0 c st) = iso_big_inst st"
  by (simp_all add: hci0_def emit_def)

lemma emit_simps [simp]:
  "trace (emit e st) = trace st @ [e]"
  "hci_seq (emit e st) = hci_seq st"
  "adv_inst (emit e st) = adv_inst st"
  "inst_count (emit e st) = inst_count st"
  "rpa_gen_offload_enabled (emit e st) = rpa_gen_offload_enabled st"
  "iso_big_inst (emit e st) = iso_big_inst st"
  by (simp_all add: emit_def)

lemma bnd_simps [simp]: "bnd (Inr st) f = f st" "bnd (Inl e) f = Inl e"
  by (simp_all add: bnd_def)





subsection \<open>Table lookups\<close>

lemma RecomputeTimeout_not_oob: "RecomputeTimeout p now \<noteq> Inl OutOfBounds"
  by (simp add: RecomputeTimeout_def Let_def split: sum.splits)

lemma RecomputeTimeout_at_not_oob: "RecomputeTimeout_at i now st \<noteq> Inl OutOfBounds"
  using RecomputeTimeout_not_oob [of "adv_inst st ! i" now]
  by (auto simp: RecomputeTimeout_at_def split: sum.splits)

lemma OnAdvertisingSetTerminated_in_range:
  assumes "unat h < length (adv_inst st)"
  shows "OnAdvertisingSetTerminated E status h ch n st \<noteq> Inl OutOfBounds"
proof -
  have r: "bnd (RecomputeTimeout_at i now s) (\<lambda>st2. if c st2 then Inr (f st2) else Inr st2)
            \<noteq> Inl OutOfBounds" for i now s c f
    using RecomputeTimeout_at_not_oob [of i now s]
    by (cases "RecomputeTimeout_at i now s") (auto simp: bnd_def)
  show ?thesis
    using assms r
    by (simp add: OnAdvertisingSetTerminated_def Let_def Run_def)
qed

text \<open>
  Claim C10. With the tables as \<open>ReadInstanceCountCb\<close> leaves them (\<open>inst_count\<close>
  entries each), \<open>GetOwnAddress\<close> and \<open>OnAdvertisingSetTerminated\<close> read the
  instance table in bounds exactly when the id or handle is below \<open>inst_count\<close>: they
  have no check of their own, and above the range the lookup fails. \<open>CreateBIGComplete\<close>
  and \<open>TerminateBIGComplete\<close> reject a handle that is not below \<open>inst_count\<close> and
  leave the state as it is.
\<close>

theorem table_lookup_bounds:
  assumes "length (adv_inst st) = unat (inst_count st)"
    and "length (iso_big_inst st) = unat (inst_count st)"
  shows "(inst_id' < inst_count st \<longrightarrow>
            GetOwnAddress inst_id' cb st =
              cb (own_address_type (adv_inst st ! unat inst_id'))
                 (own_address (adv_inst st ! unat inst_id')) st) \<and>
         (inst_count st \<le> inst_id' \<longrightarrow> GetOwnAddress inst_id' cb st = Inl OutOfBounds) \<and>
         (h < inst_count st \<longrightarrow>
            OnAdvertisingSetTerminated E status h ch n st \<noteq> Inl OutOfBounds) \<and>
         (inst_count st \<le> h \<longrightarrow>
            OnAdvertisingSetTerminated E status h ch n st = Inl OutOfBounds) \<and>
         (inst_count st \<le> bh \<longrightarrow>
            CreateBIGComplete E status bh info conn_handle_list st = Inr st \<and>
            TerminateBIGComplete E status bh cmd_status reason st = Inr st)"
proof -
  have lt: "x < inst_count st \<longleftrightarrow> unat x < length (adv_inst st)" for x
    using assms(1) by (simp add: word_less_nat_alt)
  have ge: "inst_count st \<le> x \<longleftrightarrow> \<not> unat x < length (adv_inst st)" for x
    using assms(1) by (simp add: word_le_nat_alt not_less)
  show ?thesis
    using OnAdvertisingSetTerminated_in_range [of h st E status ch n]
    by (auto simp: lt ge GetOwnAddress_def CreateBIGComplete_def TerminateBIGComplete_def
        OnAdvertisingSetTerminated_def)
qed

theorem table_lookup_bounds_witness:
  "GetOwnAddress 1 (client_address_cb 3) test_mgr =
     Inr (emit (RunGetAddressCallback 3 0 kEmpty) test_mgr) \<and>
   GetOwnAddress 2 (client_address_cb 3) test_mgr = Inl OutOfBounds \<and>
   OnAdvertisingSetTerminated test_env 0 1 0x40 0 test_mgr \<noteq> Inl OutOfBounds \<and>
   OnAdvertisingSetTerminated test_env 0 2 0x40 0 test_mgr = Inl OutOfBounds \<and>
   CreateBIGComplete test_env 0 2 test_big_info [] test_mgr = Inr test_mgr \<and>
   TerminateBIGComplete test_env 0 2 False 0 test_mgr = Inr test_mgr"
proof -
  have wf: "length (adv_inst test_mgr) = unat (inst_count test_mgr)"
    "length (iso_big_inst test_mgr) = unat (inst_count test_mgr)" by simp_all
  have r: "(1::u8) < inst_count test_mgr" "inst_count test_mgr \<le> (2::u8)" by simp_all
  note T1 = table_lookup_bounds [OF wf, where inst_id' = 1 and cb = "client_address_cb 3"
      and h = 1 and E = test_env and status = 0 and ch = "0x40" and n = 0]
  note T2 = table_lookup_bounds [OF wf, where inst_id' = 2 and cb = "client_address_cb 3"
      and h = 2 and E = test_env and status = 0 and ch = "0x40" and n = 0 and bh = 2
      and info = test_big_info and conn_handle_list = "[]" and cmd_status = False and reason = 0]
  have a: "GetOwnAddress 1 (client_address_cb 3) test_mgr =
     client_address_cb 3 (own_address_type (adv_inst test_mgr ! unat (1::u8)))
        (own_address (adv_inst test_mgr ! unat (1::u8))) test_mgr"
    using T1 r by blast
  have b: "OnAdvertisingSetTerminated test_env 0 1 0x40 0 test_mgr \<noteq> Inl OutOfBounds"
    using T1 r by blast
  have c: "GetOwnAddress 2 (client_address_cb 3) test_mgr = Inl OutOfBounds"
    "OnAdvertisingSetTerminated test_env 0 2 0x40 0 test_mgr = Inl OutOfBounds"
    "CreateBIGComplete test_env 0 2 test_big_info [] test_mgr = Inr test_mgr"
    "TerminateBIGComplete test_env 0 2 False 0 test_mgr = Inr test_mgr"
    using T2 r by blast+
  show ?thesis using a b c
    by (simp add: client_address_cb_def AdvertisingInstance_ctor_def)
qed

subsection \<open>Encrypted advertising data\<close>

lemma octets_length [simp]: "length (octets n xs) = n"
  by (simp add: octets_def)

lemma map_nth_take: "n \<le> length xs \<Longrightarrow> map (\<lambda>i. xs ! i) [0..<n] = take n xs"
  by (simp add: list_eq_iff_nth_eq)

lemma map_nth_slice:
  "a + n \<le> length xs \<Longrightarrow> map (\<lambda>i. xs ! i) [a..<a + n] = take n (drop a xs)"
  by (simp add: list_eq_iff_nth_eq)

text \<open>
  Claim C6, amended. For an instance with a 5-byte randomizer and an \<open>enc_key_value\<close>
  that is empty or 24 bytes long, when the cipher context can be created and the
  plaintext has at most 245 bytes: the key and the IV are the first 16 and the last 8
  bytes of \<open>enc_key_value\<close>, or the key material of the GAP layer when it is empty;
  the nonce is the reversed randomizer followed by the reversed IV, 13 bytes; the
  associated data is the byte \<open>0xEA\<close>; and the result is the length byte, the type
  \<open>0x31\<close>, the reversed randomizer, the ciphertext, as long as the plaintext, and the
  4-byte MIC, where the length byte is \<open>1 + 5 + len + 4\<close>.
\<close>

theorem EncryptedAdvertising_ltv:
  assumes rnd: "length (randomizer p) = 5"
    and kv: "enc_key_value p = [] \<or> length (enc_key_value p) = 24"
    and ctx: "aead_ctx_new E (if enc_key_value p = [] then octets 16 (gap_session_key E)
                              else take 16 (enc_key_value p))"
    and len: "length data \<le> 245"
  shows "let key = (if enc_key_value p = [] then octets 16 (gap_session_key E)
                    else take 16 (enc_key_value p));
             iv = (if enc_key_value p = [] then octets 8 (gap_init_vector E)
                   else drop 16 (enc_key_value p));
             nonce = rev (randomizer p) @ rev iv;
             sealed = aead_seal E key nonce data [0xEA];
             ciphertext = octets (length data) (fst sealed);
             mic = octets 4 (snd sealed);
             total_length = 1 + 5 + length data + 4
         in EncryptedAdvertising E p data =
              Inr ([word_of_nat total_length, 0x31] @ rev (randomizer p) @ ciphertext @ mic) \<and>
            length key = 16 \<and> length iv = 8 \<and> length nonce = 13 \<and>
            length ciphertext = length data \<and> length mic = 4 \<and>
            unat (word_of_nat total_length :: u8) = total_length"
proof -
  have u: "unat (word_of_nat (1 + 5 + length data + 4) :: u8) = 1 + 5 + length data + 4"
  proof -
    have g: "unat (word_of_nat N :: u8) = N" if "N < 256" for N
      using that by (simp add: unat_of_nat)
    show ?thesis by (rule g) (use len in simp)
  qed
  show ?thesis
  proof (cases "enc_key_value p = []")
    case True
    have k: "map (\<lambda>i. octets 16 (gap_session_key E) ! i) [0..<16] = octets 16 (gap_session_key E)"
      using map_nth_take [of 16 "octets 16 (gap_session_key E)"] by simp
    have i: "map (\<lambda>i. octets 8 (gap_init_vector E) ! i) [0..<8] = octets 8 (gap_init_vector E)"
      using map_nth_take [of 8 "octets 8 (gap_init_vector E)"] by simp
    show ?thesis
      unfolding EncryptedAdvertising_def k i
      using True rnd ctx u
      by (simp add: Let_def EVP_AEAD_max_overhead_def BTM_BLE_AD_TYPE_ED_def)
  next
    case False
    then have l: "length (enc_key_value p) = 24" using kv by simp
    have k: "map (\<lambda>i. enc_key_value p ! i) [0..<16] = take 16 (enc_key_value p)"
      using map_nth_take [of 16 "enc_key_value p"] l by simp
    have i: "map (\<lambda>i. enc_key_value p ! i) [16..<24] = drop 16 (enc_key_value p)"
      using map_nth_slice [of 16 8 "enc_key_value p"] l by simp
    show ?thesis
      unfolding EncryptedAdvertising_def k i
      using False rnd ctx u l
      by (simp add: Let_def EVP_AEAD_max_overhead_def BTM_BLE_AD_TYPE_ED_def)
  qed
qed

lemma ead_instance_simps:
  "randomizer ead_instance = [5, 4, 3, 2, 1]"
  "enc_key_value ead_instance = [0, 1, 2, 3, 4, 5, 6, 7, 8, 9, 10, 11, 12, 13, 14, 15,
                       0, 1, 2, 3, 4, 5, 6, 7]"
  by (simp_all add: ead_instance_def)

theorem EncryptedAdvertising_ltv_witness:
  "EncryptedAdvertising test_env ead_instance [0x03, 0x16, 0x51, 0x18] =
     Inr [14, 0x31, 1, 2, 3, 4, 5, 0x03, 0x16, 0x51, 0x18, 0, 0, 0, 0]"
proof -
  have h: "length (randomizer ead_instance) = 5"
    "enc_key_value ead_instance = [] \<or> length (enc_key_value ead_instance) = 24"
    "aead_ctx_new test_env (if enc_key_value ead_instance = []
        then octets 16 (gap_session_key test_env) else take 16 (enc_key_value ead_instance))"
    "length [0x03, 0x16, 0x51, 0x18 :: u8] \<le> 245"
    by (simp_all add: ead_instance_simps test_env_def)
  from EncryptedAdvertising_ltv [OF h]
  show ?thesis
    by (simp add: Let_def ead_instance_simps test_env_def octets_def)
qed

text \<open>
  Claim C6 as stated, for every plaintext, fails: with 246 bytes of plaintext the value
  has 256 bytes and the length byte is 0; and when no cipher context can be created the
  result is the empty vector.
\<close>

theorem EncryptedAdvertising_ltv_counterexample:
  "map_sum id (\<lambda>ltv. (hd ltv, length (tl ltv)))
     (EncryptedAdvertising test_env ead_instance (replicate 246 0)) = Inr (0, 256) \<and>
   EncryptedAdvertising (test_env\<lparr>aead_ctx_new := (\<lambda>_. False)\<rparr>) ead_instance
     [0x03, 0x16, 0x51, 0x18] = Inr []"
  by (simp add: EncryptedAdvertising_def Let_def ead_instance_simps test_env_def
      EVP_AEAD_max_overhead_def)

subsection \<open>The gate on encrypted data\<close>




subsection \<open>Rollback of StartAdvertisingSet\<close>

lemma upd_big_simps [simp]:
  "trace (upd_big i f st) = trace st"
  "hci_seq (upd_big i f st) = hci_seq st"
  "inst_count (upd_big i f st) = inst_count st"
  "adv_inst (upd_big i f st) = adv_inst st"
  "rpa_gen_offload_enabled (upd_big i f st) = rpa_gen_offload_enabled st"
  by (simp_all add: upd_big_def)

lemma Unregister_effect:
  assumes r: "inst_id' < inst_count st" "unat inst_id' < length (adv_inst st)"
    and b: "supports_ble_iso_broadcaster E \<and>
            big_handle (adv_inst st ! unat inst_id') \<noteq> (INVALID_BIG_HANDLE E) \<longrightarrow>
            unat (big_handle (adv_inst st ! unat inst_id')) < length (iso_big_inst st)"
  shows "\<exists>st' evs. Unregister E inst_id' st = Inr st' \<and>
           \<not> in_use (adv_inst st' ! unat inst_id') \<and>
           length (adv_inst st') = length (adv_inst st) \<and>
           trace st' = trace st @ evs \<and>
           (\<forall>e \<in> set evs. \<exists>cmd. e = Hci cmd \<and> \<not> pipeline_cmd cmd) \<and>
           last (trace st') = Hci (HciRemoveAdvertisingSet inst_id')"
proof -
  have nge: "\<not> inst_count st \<le> inst_id'" using r(1) by (auto simp: not_le)
  show ?thesis
    using r(2) b nge
    by (cases "supports_ble_iso_broadcaster E \<and>
            big_handle (adv_inst st ! unat inst_id') \<noteq> (INVALID_BIG_HANDLE E)";
        cases "IsEnabled (adv_inst st ! unat inst_id')";
        cases "periodic_enabled (adv_inst st ! unat inst_id')")
       (simp_all add: Unregister_def Let_def IsEnabled_def)
qed









text \<open>
  When the failing step is \<open>Enable\<close> with a duration, the status reaches the chain
  through \<open>EnableWithTimerCb\<close>, which arms \<open>timeout_timer\<close> after the callback has
  run: the instance is left free with a timer scheduled.
\<close>

lemma rollback_then_timer:
  assumes s: "status \<noteq> 0"
    and r: "cp_inst_id c < inst_count st" "unat (cp_inst_id c) < length (adv_inst st)"
    and b: "supports_ble_iso_broadcaster E \<and>
            big_handle (adv_inst st ! unat (cp_inst_id c)) \<noteq> (INVALID_BIG_HANDLE E) \<longrightarrow>
            unat (big_handle (adv_inst st ! unat (cp_inst_id c))) < length (iso_big_inst st)"
    and c: "cp_cb c = client_start_cb n"
  shows "\<exists>st''. EnableWithTimerCb (cp_inst_id c) (on_Enable E c) dur tcb status st = Inr st'' \<and>
           \<not> in_use (adv_inst st'' ! unat (cp_inst_id c)) \<and>
           timeout_timer (adv_inst st'' ! unat (cp_inst_id c)) =
             Some (Alarm (Some (dur * 10, tcb)))"
proof -
  from Unregister_effect [OF r b] obtain st' evs where
    u: "Unregister E (cp_inst_id c) st = Inr st'"
      "\<not> in_use (adv_inst st' ! unat (cp_inst_id c))"
      "length (adv_inst st') = length (adv_inst st)"
    by blast
  show ?thesis
    using s u r(2)
    by (simp add: EnableWithTimerCb_def on_Enable_def c client_start_cb_def)
qed

end
